theory Spec2Isabelle
  imports Complex_Main
begin

section \<open>Strings and numbers of the host language\<close>

text \<open>
  A JavaScript string is modelled as a \<open>string\<close>: a list of code units, each in the range
  0..255 (the Latin-1 part of UTF-16).  The string methods the extension calls are written
  out below with the results they have on such strings.
\<close>

definition startsWith :: "string \<Rightarrow> string \<Rightarrow> bool" where
  "startsWith s p = (take (length p) s = p)"

definition endsWith :: "string \<Rightarrow> string \<Rightarrow> bool" where
  "endsWith s p = (length p \<le> length s \<and> drop (length s - length p) s = p)"

definition slice_from :: "nat \<Rightarrow> string \<Rightarrow> string" where
  "slice_from i s = drop i s"

text \<open>
  \<open>split_on sep s\<close> is \<open>s.split(sep)\<close> for a separator of one code unit: the result is
  never empty, and the empty string splits into one empty segment.
\<close>

fun split_on :: "char \<Rightarrow> string \<Rightarrow> string list" where
  "split_on sep [] = [[]]"
| "split_on sep (c # cs) =
     (if c = sep then [] # split_on sep cs
      else (case split_on sep cs of [] \<Rightarrow> [[c]] | x # xs \<Rightarrow> (c # x) # xs))"

text \<open>
  White space and line terminators of the language, among the code units below 256:
  TAB, LF, VT, FF, CR, SP and NBSP.  \<open>trim\<close> removes them at both ends.
\<close>

definition isWhiteSpace :: "char \<Rightarrow> bool" where
  "isWhiteSpace c = ((of_char c :: nat) \<in> {9, 10, 11, 12, 13, 32, 160})"

definition trim :: "string \<Rightarrow> string" where
  "trim s = rev (dropWhile isWhiteSpace (rev (dropWhile isWhiteSpace s)))"

text \<open>
  \<open>toLowerCase\<close>: the letters A to Z and the Latin-1 capitals (192 to 222 but the
  multiplication sign 215) move up by 32; every other code unit below 256 stays.
\<close>

definition lowerChar :: "char \<Rightarrow> char" where
  "lowerChar c =
     (let n = (of_char c :: nat)
      in if (65 \<le> n \<and> n \<le> 90) \<or> (192 \<le> n \<and> n \<le> 222 \<and> n \<noteq> 215)
         then char_of (n + 32) else c)"

definition toLowerCase :: "string \<Rightarrow> string" where
  "toLowerCase s = map lowerChar s"

text \<open>
  \<open>indexOf c s\<close> is the index of the first \<open>c\<close> in \<open>s\<close>, or \<open>-1\<close>.
  \<open>substring a b s\<close> clamps both indices to \<open>0..length s\<close> and swaps them when
  \<open>a > b\<close>; \<open>substring_from a s\<close> is the call with one argument.
\<close>

fun indexOf :: "char \<Rightarrow> string \<Rightarrow> int" where
  "indexOf c [] = -1"
| "indexOf c (x # xs) =
     (if x = c then 0 else (let i = indexOf c xs in if i < 0 then -1 else i + 1))"

definition clampIndex :: "int \<Rightarrow> string \<Rightarrow> nat" where
  "clampIndex i s = (if i < 0 then 0 else min (nat i) (length s))"

definition substring :: "int \<Rightarrow> int \<Rightarrow> string \<Rightarrow> string" where
  "substring a b s =
     (let i = clampIndex a s; j = clampIndex b s
      in take (max i j - min i j) (drop (min i j) s))"

definition substring_from :: "int \<Rightarrow> string \<Rightarrow> string" where
  "substring_from a s = drop (clampIndex a s) s"

text \<open>
  A number of the language is a real or NaN.  The model computes with exact values: the
  rounding of IEEE doubles and the infinities are not modelled.  \<open>truthy\<close> is the
  conversion to a boolean that \<open>!\<close>, \<open>||\<close> and \<open>&&\<close> apply: \<open>null\<close>, \<open>0\<close> and NaN
  are falsy.
\<close>

datatype number = NaN | Num real

fun num_add :: "number \<Rightarrow> number \<Rightarrow> number" where
  "num_add (Num a) (Num b) = Num (a + b)"
| "num_add _ _ = NaN"

fun num_div :: "number \<Rightarrow> real \<Rightarrow> number" where
  "num_div (Num a) d = Num (a / d)"
| "num_div NaN d = NaN"

fun num_gt :: "number \<Rightarrow> number \<Rightarrow> bool" where
  "num_gt (Num a) (Num b) = (a > b)"
| "num_gt _ _ = False"

fun truthy :: "number option \<Rightarrow> bool" where
  "truthy None = False"
| "truthy (Some NaN) = False"
| "truthy (Some (Num a)) = (a \<noteq> 0)"

text \<open>
  \<open>parseInt(s)\<close> with no radix: leading white space is skipped, one sign is read, the
  prefix \<open>0x\<close> or \<open>0X\<close> selects radix 16 (radix 10 otherwise), and the longest run of
  digits is the value; with no digit the result is NaN.
\<close>

definition digitValue :: "char \<Rightarrow> nat option" where
  "digitValue c =
     (let n = (of_char c :: nat)
      in if 48 \<le> n \<and> n \<le> 57 then Some (n - 48)
         else if 97 \<le> n \<and> n \<le> 102 then Some (n - 87)
         else if 65 \<le> n \<and> n \<le> 70 then Some (n - 55)
         else None)"

definition isDigit :: "nat \<Rightarrow> char \<Rightarrow> bool" where
  "isDigit radix c = (case digitValue c of None \<Rightarrow> False | Some d \<Rightarrow> d < radix)"

fun digitsValue :: "nat \<Rightarrow> nat \<Rightarrow> string \<Rightarrow> nat" where
  "digitsValue radix acc [] = acc"
| "digitsValue radix acc (c # cs) =
     digitsValue radix (acc * radix + (case digitValue c of None \<Rightarrow> 0 | Some d \<Rightarrow> d)) cs"

definition parseInt :: "string \<Rightarrow> number" where
  "parseInt s =
     (let s1 = dropWhile isWhiteSpace s;
          sign = (case s1 of c # _ \<Rightarrow> if c = CHR ''-'' then - 1 else (1::int) | [] \<Rightarrow> 1);
          s2 = (case s1 of c # r \<Rightarrow> if c = CHR ''-'' \<or> c = CHR ''+'' then r else s1 | [] \<Rightarrow> s1);
          hex = (take 2 s2 = ''0x'' \<or> take 2 s2 = ''0X'');
          radix = (if hex then 16 else 10);
          s3 = (if hex then drop 2 s2 else s2);
          z = takeWhile (isDigit radix) s3
      in if z = [] then NaN else Num (of_int (sign * int (digitsValue radix 0 z))))"

section \<open>storage.js: the domain-match test\<close>

text \<open>
  \<^verbatim>\<open>
  domainMatches(requestDomain, cookieDomain) {
    if (!requestDomain || !cookieDomain) return false;
    if (cookieDomain.startsWith('.')) {
      return requestDomain === cookieDomain.slice(1) ||
             requestDomain.endsWith(cookieDomain);
    }
    return requestDomain === cookieDomain;
  }
  \<close>
  The empty string is the only falsy string.
\<close>

definition domainMatches :: "string \<Rightarrow> string \<Rightarrow> bool" where
  "domainMatches requestDomain cookieDomain =
     (if requestDomain = [] \<or> cookieDomain = [] then False
      else if startsWith cookieDomain ''.''
        then requestDomain = slice_from 1 cookieDomain \<or> endsWith requestDomain cookieDomain
      else requestDomain = cookieDomain)"

section \<open>The host: URL parser, date parser, rule engine\<close>

text \<open>
  The browser is not part of the repository.  What the code asks of it is a parameter of
  the model:
  \<^item> \<open>url_hostname u\<close> is \<open>new URL(u).hostname\<close>, or \<open>None\<close> when the constructor throws;
  \<^item> \<open>date_parse v\<close> is \<open>new Date(v).getTime()\<close>: milliseconds since the epoch, or NaN
    for a text that is no date (the constructor does not throw on a string);
  \<^item> \<open>rejects installed removeIds addRules\<close> tells whether the rule engine, holding the
    rules \<open>installed\<close>, refuses the update (a promise that rejects).
  The clock \<open>Date.now() / 1000\<close> is the argument \<open>now\<close> of the functions that read it.
\<close>

datatype headerOp = Remove string | SetHeader string string

record rule =
  ruleId :: nat
  priority :: nat
  actionType :: string
  requestHeaders :: "headerOp list"
  responseHeaders :: "headerOp list"
  tabIds :: "int list"
  resourceTypes :: "string list"

record host =
  url_hostname :: "string \<Rightarrow> string option"
  date_parse :: "string \<Rightarrow> number"
  rejects :: "rule list \<Rightarrow> nat list \<Rightarrow> rule list \<Rightarrow> bool"

section \<open>Cookie records and the Set-Cookie parser\<close>

record cookie =
  name :: string
  cvalue :: string
  domain :: string
  path :: string
  secure :: bool
  httpOnly :: bool
  sameSite :: string
  expirationDate :: "number option"

text \<open>
  The body of the loop over the attributes:
  \<^verbatim>\<open>
  const eqIdx = attr.indexOf('=');
  const attrName = eqIdx > 0 ? attr.substring(0, eqIdx).toLowerCase() : attr.toLowerCase();
  const attrValue = eqIdx > 0 ? attr.substring(eqIdx + 1) : '';
  switch (attrName) {
    case 'domain':   cookie.domain = attrValue.startsWith('.') ? attrValue : '.' + attrValue; break;
    case 'path':     cookie.path = attrValue || '/'; break;
    case 'expires':  try { cookie.expirationDate = new Date(attrValue).getTime() / 1000; } catch {} break;
    case 'max-age':  cookie.expirationDate = Date.now() / 1000 + parseInt(attrValue); break;
    case 'secure':   cookie.secure = true; break;
    case 'httponly': cookie.httpOnly = true; break;
    case 'samesite': cookie.sameSite = attrValue || 'Lax'; break;
  }
  \<close>
  \<open>new Date(attrValue)\<close> never throws on a string, so the \<open>try\<close> has no second branch.
\<close>

definition attrName :: "string \<Rightarrow> string" where
  "attrName attr =
     (let eqIdx = indexOf CHR ''='' attr
      in if eqIdx > 0 then toLowerCase (substring 0 eqIdx attr) else toLowerCase attr)"

definition attrValue :: "string \<Rightarrow> string" where
  "attrValue attr =
     (let eqIdx = indexOf CHR ''='' attr
      in if eqIdx > 0 then substring_from (eqIdx + 1) attr else [])"

definition applyAttr :: "host \<Rightarrow> real \<Rightarrow> cookie \<Rightarrow> string \<Rightarrow> cookie" where
  "applyAttr h now c attr =
     (let n = attrName attr; v = attrValue attr
      in if n = ''domain'' then c\<lparr>domain := (if startsWith v ''.'' then v else ''.'' @ v)\<rparr>
         else if n = ''path'' then c\<lparr>path := (if v \<noteq> [] then v else ''/'')\<rparr>
         else if n = ''expires'' then c\<lparr>expirationDate := Some (num_div (date_parse h v) 1000)\<rparr>
         else if n = ''max-age'' then c\<lparr>expirationDate := Some (num_add (Num now) (parseInt v))\<rparr>
         else if n = ''secure'' then c\<lparr>secure := True\<rparr>
         else if n = ''httponly'' then c\<lparr>httpOnly := True\<rparr>
         else if n = ''samesite'' then c\<lparr>sameSite := (if v \<noteq> [] then v else ''Lax'')\<rparr>
         else c)"

fun applyAttrs :: "host \<Rightarrow> real \<Rightarrow> cookie \<Rightarrow> string list \<Rightarrow> cookie" where
  "applyAttrs h now c [] = c"
| "applyAttrs h now c (attr # attributes) = applyAttrs h now (applyAttr h now c attr) attributes"

text \<open>
  \<^verbatim>\<open>
  function parseSetCookie(header, url) {
    const parts = header.split(';').map(p => p.trim());
    const [nameValue, ...attributes] = parts;
    const eqIndex = nameValue.indexOf('=');
    const name = nameValue.substring(0, eqIndex);
    const value = nameValue.substring(eqIndex + 1);
    let domain;
    try { domain = new URL(url).hostname; } catch { return null; }
    const cookie = { name, value, domain, path: '/', secure: false, httpOnly: false,
                     sameSite: 'Lax', expirationDate: null };
    for (const attr of attributes) { ... }
    return cookie;
  }
  \<close>
  \<open>None\<close> is the result \<open>null\<close>.  \<open>split\<close> never returns an empty array
  (\<open>split_on_not_Nil\<close> below), so the first case of \<open>parts\<close> is never taken.
\<close>

definition parseSetCookie :: "host \<Rightarrow> real \<Rightarrow> string \<Rightarrow> string \<Rightarrow> cookie option" where
  "parseSetCookie h now header url =
     (case map trim (split_on CHR '';'' header) of
        [] \<Rightarrow> None
      | nameValue # attributes \<Rightarrow>
          (let eqIndex = indexOf CHR ''='' nameValue;
               name' = substring 0 eqIndex nameValue;
               value' = substring_from (eqIndex + 1) nameValue
           in case url_hostname h url of
                None \<Rightarrow> None
              | Some domain' \<Rightarrow>
                  Some (applyAttrs h now
                         \<lparr>name = name', cvalue = value', domain = domain', path = ''/'',
                          secure = False, httpOnly = False, sameSite = ''Lax'',
                          expirationDate = None\<rparr>
                         attributes)))"

section \<open>The persisted store and the in-memory state\<close>

text \<open>
  An object used as a dictionary is the list of its own properties in the order in which
  \<open>for ... in\<close> and \<open>Object.values\<close> enumerate them; \<open>o[k]\<close> is \<open>map_of o k\<close>.
  The keys of an object are distinct.  The table of tab bindings is only read and written
  by key, so it is a map.
\<close>

type_synonym 'v obj = "(string \<times> 'v) list"

definition obj_delete :: "string \<Rightarrow> 'v obj \<Rightarrow> 'v obj" where
  "obj_delete k ob = filter (\<lambda>kv. fst kv \<noteq> k) ob"

text \<open>
  The order of the properties of an object: the keys that are array indices (canonical
  decimal numerals below \<open>2^32 - 1\<close>) come first, in numeric order, and the other keys
  follow in the order in which they were created.  \<open>obj_set k v ob\<close> is the assignment
  \<open>ob[k] = v\<close>: an existing key keeps its place.
\<close>

definition isArrayIndex :: "string \<Rightarrow> bool" where
  "isArrayIndex k =
     (k \<noteq> [] \<and> list_all (isDigit 10) k \<and> (k = ''0'' \<or> take 1 k \<noteq> ''0'')
      \<and> digitsValue 10 0 k < 4294967295)"

fun obj_insert_index :: "string \<Rightarrow> 'v \<Rightarrow> 'v obj \<Rightarrow> 'v obj" where
  "obj_insert_index k v [] = [(k, v)]"
| "obj_insert_index k v (p # ps) =
     (if isArrayIndex (fst p) \<and> digitsValue 10 0 (fst p) < digitsValue 10 0 k
      then p # obj_insert_index k v ps
      else (k, v) # p # ps)"

definition obj_set :: "string \<Rightarrow> 'v \<Rightarrow> 'v obj \<Rightarrow> 'v obj" where
  "obj_set k v ob =
     (case map_of ob k of
        Some _ \<Rightarrow> map (\<lambda>p. if fst p = k then (k, v) else p) ob
      | None \<Rightarrow> if isArrayIndex k then obj_insert_index k v ob else ob @ [(k, v)])"

record session =
  sid :: string
  sname :: string
  color :: string
  icon :: string

record tabInfo =
  sessionId :: string
  ruleIds :: "nat list"

record tabEntry = tabInfo +
  domains :: "string set"

text \<open>
  The four keys of \<open>chrome.storage.local\<close> (\<open>None\<close> is a key that is not set), the
  \<open>tabCache\<close> of the background script, and the session rules the rule engine holds.
\<close>

record world =
  sessions :: "session list option"
  tabSessions :: "(int \<rightharpoonup> tabInfo) option"
  sessionCookies :: "cookie obj obj obj option"
  ruleIdCounter :: "nat option"
  tabCache :: "int \<rightharpoonup> tabEntry"
  sessionRules :: "rule list"

definition DEFAULT_SESSIONS :: "session list" where
  "DEFAULT_SESSIONS =
     [\<lparr>sid = ''default'', sname = ''Default'', color = ''#808080'', icon = ''fingerprint''\<rparr>,
      \<lparr>sid = ''personal'', sname = ''Personal'', color = ''#00a8e8'', icon = ''user''\<rparr>,
      \<lparr>sid = ''work'', sname = ''Work'', color = ''#f9a825'', icon = ''briefcase''\<rparr>,
      \<lparr>sid = ''shopping'', sname = ''Shopping'', color = ''#43a047'', icon = ''cart''\<rparr>,
      \<lparr>sid = ''banking'', sname = ''Banking'', color = ''#e53935'', icon = ''dollar''\<rparr>]"

text \<open>
  \<^verbatim>\<open>
  async getNextRuleId() {
    const data = await this.get('ruleIdCounter');
    const nextId = (data.ruleIdCounter || 1);
    await this.set({ ruleIdCounter: nextId + 100 }); // Reserve 100 IDs per tab
    return nextId;
  }
  \<close>
\<close>

definition currentRuleId :: "world \<Rightarrow> nat" where
  "currentRuleId w = (case ruleIdCounter w of None \<Rightarrow> 1 | Some n \<Rightarrow> if n \<noteq> 0 then n else 1)"

definition getNextRuleId :: "world \<Rightarrow> nat \<times> world" where
  "getNextRuleId w =
     (let nextId = currentRuleId w
      in (nextId, w\<lparr>ruleIdCounter := Some (nextId + 100)\<rparr>))"

definition getSessions :: "world \<Rightarrow> session list" where
  "getSessions w = (case sessions w of None \<Rightarrow> DEFAULT_SESSIONS | Some ss \<Rightarrow> ss)"

text \<open>
  \<^verbatim>\<open>
  async deleteSession(sessionId) {
    if (sessionId === 'default') return false;
    let sessions = await this.getSessions();
    sessions = sessions.filter(s => s.id !== sessionId);
    await this.set({ sessions });
    const data = await this.get('sessionCookies');
    if (data.sessionCookies && data.sessionCookies[sessionId]) {
      delete data.sessionCookies[sessionId];
      await this.set({ sessionCookies: data.sessionCookies });
    }
    const tabData = await this.get('tabSessions');
    if (tabData.tabSessions) {
      for (const tabId in tabData.tabSessions) {
        if (tabData.tabSessions[tabId].sessionId === sessionId) {
          tabData.tabSessions[tabId].sessionId = 'default';
        }
      }
      await this.set({ tabSessions: tabData.tabSessions });
    }
    return true;
  }
  \<close>
\<close>

definition reassignTab :: "string \<Rightarrow> tabInfo \<Rightarrow> tabInfo" where
  "reassignTab s info = (if sessionId info = s then info\<lparr>sessionId := ''default''\<rparr> else info)"

definition deleteSession :: "world \<Rightarrow> string \<Rightarrow> bool \<times> world" where
  "deleteSession w s =
     (if s = ''default'' then (False, w)
      else
        let w1 = w\<lparr>sessions := Some (filter (\<lambda>x. sid x \<noteq> s) (getSessions w))\<rparr>;
            w2 = (case sessionCookies w1 of
                    None \<Rightarrow> w1
                  | Some sc \<Rightarrow>
                      (case map_of sc s of
                         None \<Rightarrow> w1
                       | Some _ \<Rightarrow> w1\<lparr>sessionCookies := Some (obj_delete s sc)\<rparr>));
            w3 = (case tabSessions w2 of
                    None \<Rightarrow> w2
                  | Some ts \<Rightarrow>
                      w2\<lparr>tabSessions := Some (\<lambda>tabId. map_option (reassignTab s) (ts tabId))\<rparr>)
        in (True, w3))"

text \<open>
  \<^verbatim>\<open>
  async getTabInfo(tabId) {
    const data = await this.get('tabSessions');
    return (data.tabSessions && data.tabSessions[tabId]) || { sessionId: 'default', ruleIds: [] };
  }
  async getTabSession(tabId) { const info = await this.getTabInfo(tabId); return info.sessionId; }
  async setTabInfo(tabId, sessionId, ruleIds = []) {
    const data = await this.get('tabSessions');
    const tabSessions = data.tabSessions || {};
    tabSessions[tabId] = { sessionId, ruleIds };
    await this.set({ tabSessions });
  }
  \<close>
\<close>

definition getTabInfo :: "world \<Rightarrow> int \<Rightarrow> tabInfo" where
  "getTabInfo w tabId =
     (case tabSessions w of
        None \<Rightarrow> \<lparr>sessionId = ''default'', ruleIds = []\<rparr>
      | Some ts \<Rightarrow>
          (case ts tabId of
             None \<Rightarrow> \<lparr>sessionId = ''default'', ruleIds = []\<rparr>
           | Some info \<Rightarrow> info))"

definition getTabSession :: "world \<Rightarrow> int \<Rightarrow> string" where
  "getTabSession w tabId = sessionId (getTabInfo w tabId)"

definition setTabInfo :: "world \<Rightarrow> int \<Rightarrow> string \<Rightarrow> nat list \<Rightarrow> world" where
  "setTabInfo w tabId s rids =
     w\<lparr>tabSessions :=
         Some ((case tabSessions w of None \<Rightarrow> Map.empty | Some ts \<Rightarrow> ts)
               (tabId \<mapsto> \<lparr>sessionId = s, ruleIds = rids\<rparr>))\<rparr>"

text \<open>
  \<^verbatim>\<open>
  async getSessionCookies(sessionId) {
    const data = await this.get('sessionCookies');
    return (data.sessionCookies && data.sessionCookies[sessionId]) || {};
  }
  async getSessionCookiesForDomain(sessionId, domain) {
    const allCookies = await this.getSessionCookies(sessionId);
    const cookies = [];
    for (const cookieDomain in allCookies) {
      if (this.domainMatches(domain, cookieDomain)) {
        cookies.push(...Object.values(allCookies[cookieDomain]));
      }
    }
    return cookies;
  }
  \<close>
  \<open>collectCookies\<close> is the loop: the keys still to visit, and the array \<open>cookies\<close> so far.
\<close>

definition getSessionCookies :: "world \<Rightarrow> string \<Rightarrow> cookie obj obj" where
  "getSessionCookies w s =
     (case sessionCookies w of
        None \<Rightarrow> []
      | Some sc \<Rightarrow> (case map_of sc s of None \<Rightarrow> [] | Some ob \<Rightarrow> ob))"

fun collectCookies :: "cookie obj obj \<Rightarrow> string \<Rightarrow> string list \<Rightarrow> cookie list \<Rightarrow> cookie list" where
  "collectCookies allCookies d [] cookies = cookies"
| "collectCookies allCookies d (cookieDomain # ks) cookies =
     collectCookies allCookies d ks
       (if domainMatches d cookieDomain
        then cookies @ (case map_of allCookies cookieDomain of
                          None \<Rightarrow> []
                        | Some bucket \<Rightarrow> map snd bucket)
        else cookies)"

definition getSessionCookiesForDomain :: "world \<Rightarrow> string \<Rightarrow> string \<Rightarrow> cookie list" where
  "getSessionCookiesForDomain w s d =
     (let allCookies = getSessionCookies w s
      in collectCookies allCookies d (map fst allCookies) [])"

text \<open>
  \<^verbatim>\<open>
  async setSessionCookie(sessionId, cookie) {
    const data = await this.get('sessionCookies');
    const sessionCookies = data.sessionCookies || {};
    if (!sessionCookies[sessionId]) { sessionCookies[sessionId] = {}; }
    const domain = cookie.domain || '';
    if (!sessionCookies[sessionId][domain]) { sessionCookies[sessionId][domain] = {}; }
    const cookieKey = `${cookie.name}|${cookie.path || '/'}`;
    sessionCookies[sessionId][domain][cookieKey] = cookie;
    await this.set({ sessionCookies });
  }
  \<close>
\<close>

definition setSessionCookie :: "world \<Rightarrow> string \<Rightarrow> cookie \<Rightarrow> world" where
  "setSessionCookie w s c =
     (let sc = (case sessionCookies w of None \<Rightarrow> [] | Some x \<Rightarrow> x);
          sc1 = (case map_of sc s of None \<Rightarrow> obj_set s [] sc | Some _ \<Rightarrow> sc);
          jar = (case map_of sc1 s of None \<Rightarrow> [] | Some j \<Rightarrow> j);
          d = domain c;
          jar1 = (case map_of jar d of None \<Rightarrow> obj_set d [] jar | Some _ \<Rightarrow> jar);
          bucket = (case map_of jar1 d of None \<Rightarrow> [] | Some b \<Rightarrow> b);
          cookieKey = name c @ ''|'' @ (if path c \<noteq> [] then path c else ''/'')
      in w\<lparr>sessionCookies :=
             Some (obj_set s (obj_set d (obj_set cookieKey c bucket) jar1) sc1)\<rparr>)"

section \<open>The background script: cookie header and rules\<close>

text \<open>
  \<^verbatim>\<open>
  async function buildCookieHeader(sessionId, domain) {
    const cookies = await Storage.getSessionCookiesForDomain(sessionId, domain);
    const now = Date.now() / 1000;
    return cookies
      .filter(c => !c.expirationDate || c.expirationDate > now)
      .map(c => `${c.name}=${c.value}`)
      .join('; ');
  }
  \<close>
\<close>

fun join :: "string \<Rightarrow> string list \<Rightarrow> string" where
  "join sep [] = []"
| "join sep [x] = x"
| "join sep (x # y # ys) = x @ sep @ join sep (y # ys)"

definition keepsCookie :: "real \<Rightarrow> cookie \<Rightarrow> bool" where
  "keepsCookie now c =
     (\<not> truthy (expirationDate c)
      \<or> (case expirationDate c of None \<Rightarrow> False | Some e \<Rightarrow> num_gt e (Num now)))"

definition cookiePair :: "cookie \<Rightarrow> string" where
  "cookiePair c = name c @ ''='' @ cvalue c"

definition buildCookieHeader :: "world \<Rightarrow> real \<Rightarrow> string \<Rightarrow> string \<Rightarrow> string" where
  "buildCookieHeader w now s d =
     join ''; '' (map cookiePair (filter (keepsCookie now) (getSessionCookiesForDomain w s d)))"

text \<open>
  \<^verbatim>\<open>
  async function createRulesForTab(tabId, sessionId, url) {
    if (sessionId === 'default') return [];
    let domain;
    try { domain = new URL(url).hostname; } catch { return []; }
    const cookieHeader = await buildCookieHeader(sessionId, domain);
    const baseRuleId = await Storage.getNextRuleId();
    const rules = [];
    rules.push({ id: baseRuleId, priority: 1,
      action: { type: 'modifyHeaders', requestHeaders: [
          { header: 'Cookie', operation: 'remove' },
          ...(cookieHeader ? [{ header: 'Cookie', operation: 'set', value: cookieHeader }] : []) ] },
      condition: { tabIds: [tabId], resourceTypes: [...] } });
    rules.push({ id: baseRuleId + 1, priority: 1,
      action: { type: 'modifyHeaders', responseHeaders: [
          { header: 'Set-Cookie', operation: 'remove' } ] },
      condition: { tabIds: [tabId], resourceTypes: [...] } });
    return rules;
  }
  \<close>
  A header list that a rule does not have is the empty list.
\<close>

definition allResourceTypes :: "string list" where
  "allResourceTypes =
     [''main_frame'', ''sub_frame'', ''xmlhttprequest'', ''script'', ''image'', ''font'',
      ''stylesheet'', ''media'', ''websocket'', ''other'']"

definition cookieRule :: "nat \<Rightarrow> int \<Rightarrow> string \<Rightarrow> rule" where
  "cookieRule baseRuleId tabId cookieHeader =
     \<lparr>ruleId = baseRuleId, priority = 1, actionType = ''modifyHeaders'',
      requestHeaders =
        Remove ''Cookie'' # (if cookieHeader \<noteq> [] then [SetHeader ''Cookie'' cookieHeader] else []),
      responseHeaders = [],
      tabIds = [tabId], resourceTypes = allResourceTypes\<rparr>"

definition setCookieRule :: "nat \<Rightarrow> int \<Rightarrow> rule" where
  "setCookieRule baseRuleId tabId =
     \<lparr>ruleId = baseRuleId + 1, priority = 1, actionType = ''modifyHeaders'',
      requestHeaders = [],
      responseHeaders = [Remove ''Set-Cookie''],
      tabIds = [tabId], resourceTypes = allResourceTypes\<rparr>"

definition createRulesForTab ::
  "host \<Rightarrow> real \<Rightarrow> world \<Rightarrow> int \<Rightarrow> string \<Rightarrow> string \<Rightarrow> rule list \<times> world" where
  "createRulesForTab h now w tabId s url =
     (if s = ''default'' then ([], w)
      else case url_hostname h url of
             None \<Rightarrow> ([], w)
           | Some d \<Rightarrow>
               (let cookieHeader = buildCookieHeader w now s d;
                    (baseRuleId, w') = getNextRuleId w
                in ([cookieRule baseRuleId tabId cookieHeader, setCookieRule baseRuleId tabId], w')))"

text \<open>
  \<open>chrome.declarativeNetRequest.updateSessionRules({removeRuleIds, addRules})\<close>: the engine
  either refuses the whole update (\<open>None\<close>: the promise rejects, nothing changes) or drops
  the rules with the given identifiers and adds the new ones.
\<close>

definition updateSessionRules :: "host \<Rightarrow> world \<Rightarrow> nat list \<Rightarrow> rule list \<Rightarrow> world option" where
  "updateSessionRules h w removeRuleIds addRules =
     (if rejects h (sessionRules w) removeRuleIds addRules then None
      else Some (w\<lparr>sessionRules :=
                    filter (\<lambda>r. ruleId r \<notin> set removeRuleIds) (sessionRules w) @ addRules\<rparr>))"

text \<open>
  \<^verbatim>\<open>
  async function applyRulesForTab(tabId, sessionId, url) {
    const tabInfo = tabCache.get(tabId) || { sessionId: 'default', ruleIds: [], domains: new Set() };
    if (tabInfo.ruleIds.length > 0) {
      try { await chrome.declarativeNetRequest.updateSessionRules({ removeRuleIds: tabInfo.ruleIds }); }
      catch (e) { console.error('Error removing old rules:', e); }
    }
    if (sessionId === 'default') {
      tabCache.set(tabId, { sessionId: 'default', ruleIds: [], domains: new Set() });
      await Storage.setTabInfo(tabId, sessionId, []);
      return;
    }
    const rules = await createRulesForTab(tabId, sessionId, url);
    const ruleIds = rules.map(r => r.id);
    if (rules.length > 0) {
      try { await chrome.declarativeNetRequest.updateSessionRules({ addRules: rules }); }
      catch (e) { console.error('Error adding rules:', e); }
    }
    let domain;
    try { domain = new URL(url).hostname; } catch { domain = ''; }
    const domains = new Set([domain]);
    tabCache.set(tabId, { sessionId, ruleIds, domains });
    await Storage.setTabInfo(tabId, sessionId, ruleIds);
  }
  \<close>
  A rejected update is caught and logged: the state stays as it was before the call.
\<close>

definition cachedTabInfo :: "world \<Rightarrow> int \<Rightarrow> tabEntry" where
  "cachedTabInfo w tabId =
     (case tabCache w tabId of
        None \<Rightarrow> \<lparr>sessionId = ''default'', ruleIds = [], domains = {}\<rparr>
      | Some e \<Rightarrow> e)"

definition removeOldRules :: "host \<Rightarrow> world \<Rightarrow> int \<Rightarrow> world" where
  "removeOldRules h w tabId =
     (let tabInfo = cachedTabInfo w tabId
      in if ruleIds tabInfo \<noteq> []
         then (case updateSessionRules h w (ruleIds tabInfo) [] of None \<Rightarrow> w | Some w' \<Rightarrow> w')
         else w)"

definition addNewRules :: "host \<Rightarrow> world \<Rightarrow> rule list \<Rightarrow> world" where
  "addNewRules h w rules =
     (if rules \<noteq> []
      then (case updateSessionRules h w [] rules of None \<Rightarrow> w | Some w' \<Rightarrow> w')
      else w)"

definition applyRulesForTab ::
  "host \<Rightarrow> real \<Rightarrow> world \<Rightarrow> int \<Rightarrow> string \<Rightarrow> string \<Rightarrow> world" where
  "applyRulesForTab h now w tabId s url =
     (let w1 = removeOldRules h w tabId
      in if s = ''default''
         then setTabInfo
                (w1\<lparr>tabCache := (tabCache w1)
                      (tabId \<mapsto> \<lparr>sessionId = ''default'', ruleIds = [], domains = {}\<rparr>)\<rparr>)
                tabId s []
         else
           let (rules, w2) = createRulesForTab h now w1 tabId s url;
               rids = map ruleId rules;
               w3 = addNewRules h w2 rules;
               d = (case url_hostname h url of None \<Rightarrow> [] | Some x \<Rightarrow> x)
           in setTabInfo
                (w3\<lparr>tabCache := (tabCache w3)
                      (tabId \<mapsto> \<lparr>sessionId = s, ruleIds = rids, domains = {d}\<rparr>)\<rparr>)
                tabId s rids)"

section \<open>The background script: messages\<close>

text \<open>
  The two messages the properties below are about.  The context menus and the badge that
  the handlers also update are not part of the state modelled here.
  \<^verbatim>\<open>
  case 'getTabSession':
    const tabInfo = tabCache.get(message.tabId);
    return tabInfo?.sessionId || await Storage.getTabSession(message.tabId);
  case 'deleteSession': {
    const deleted = await Storage.deleteSession(message.sessionId);
    await updateContextMenus();
    for (const [tabId, info] of tabCache) {
      if (info.sessionId === message.sessionId) {
        info.sessionId = 'default';
        updateBadge(tabId, 'default');
      }
    }
    return deleted;
  }
  \<close>
\<close>

definition handleGetTabSession :: "world \<Rightarrow> int \<Rightarrow> string" where
  "handleGetTabSession w tabId =
     (case tabCache w tabId of
        None \<Rightarrow> getTabSession w tabId
      | Some e \<Rightarrow> if sessionId e \<noteq> [] then sessionId e else getTabSession w tabId)"

definition reassignEntry :: "string \<Rightarrow> tabEntry \<Rightarrow> tabEntry" where
  "reassignEntry s e = (if sessionId e = s then e\<lparr>sessionId := ''default''\<rparr> else e)"

definition handleDeleteSession :: "world \<Rightarrow> string \<Rightarrow> bool \<times> world" where
  "handleDeleteSession w s =
     (let (deleted, w1) = deleteSession w s
      in (deleted, w1\<lparr>tabCache := (\<lambda>tabId. map_option (reassignEntry s) (tabCache w1 tabId))\<rparr>))"

section \<open>The background script: cookie capture and start-up\<close>

text \<open>
  The listener for response headers stores each \<open>Set-Cookie\<close> header of a tab that is
  bound to a session other than \<open>default\<close> (the refresh of the tab's rules follows):
  \<^verbatim>\<open>
  for (const header of setCookieHeaders) {
    const cookie = parseSetCookie(header.value, details.url);
    if (cookie) {
      Storage.setSessionCookie(tabInfo.sessionId, cookie).then(() => {
        refreshTabCookies(details.tabId);
      });
    }
  }
  \<close>
  At start-up the cache is rebuilt from the persisted sessions, with no rule identifiers:
  \<^verbatim>\<open>
  chrome.tabs.query({}).then(async (tabs) => {
    for (const tab of tabs) {
      const sessionId = await Storage.getTabSession(tab.id);
      tabCache.set(tab.id, { sessionId, ruleIds: [], domains: new Set() });
      updateBadge(tab.id, sessionId);
    }
  });
  \<close>
\<close>

definition captureSetCookie ::
  "host \<Rightarrow> real \<Rightarrow> world \<Rightarrow> string \<Rightarrow> string \<Rightarrow> string \<Rightarrow> world" where
  "captureSetCookie h now w s header url =
     (case parseSetCookie h now header url of
        None \<Rightarrow> w
      | Some c \<Rightarrow> setSessionCookie w s c)"

definition startupTab :: "world \<Rightarrow> int \<Rightarrow> world" where
  "startupTab w tabId =
     w\<lparr>tabCache := (tabCache w)
          (tabId \<mapsto> \<lparr>sessionId = getTabSession w tabId, ruleIds = [], domains = {}\<rparr>)\<rparr>"

section \<open>Auxiliary notions for the properties\<close>

text \<open>
  \<open>nextRuleIds n w\<close> lists the identifiers that \<open>n\<close> calls of \<open>getNextRuleId\<close>, each
  completed before the next starts, return from the state \<open>w\<close>.  \<open>ruleIdBlock b\<close> is the
  block of 100 identifiers reserved with the base \<open>b\<close>.
\<close>

fun nextRuleIds :: "nat \<Rightarrow> world \<Rightarrow> nat list" where
  "nextRuleIds 0 w = []"
| "nextRuleIds (Suc n) w = fst (getNextRuleId w) # nextRuleIds n (snd (getNextRuleId w))"

definition ruleIdBlock :: "nat \<Rightarrow> nat set" where
  "ruleIdBlock b = {b ..< b + 100}"

text \<open>A freshly initialised state: no tab, no cookie, the counter at 1.\<close>

definition world0 :: world where
  "world0 =
     \<lparr>sessions = None, tabSessions = None, sessionCookies = None, ruleIdCounter = Some 1,
      tabCache = Map.empty, sessionRules = []\<rparr>"

text \<open>
  \<open>matchingCookies allCookies d\<close> are the records of the buckets whose domain key matches
  the request domain \<open>d\<close>, bucket after bucket in the order of the store.
\<close>

definition matchingCookies :: "cookie obj obj \<Rightarrow> string \<Rightarrow> cookie list" where
  "matchingCookies allCookies d =
     concat (map (\<lambda>kb. map snd (snd kb)) (filter (\<lambda>kb. domainMatches d (fst kb)) allCookies))"

text \<open>
  Following the spec's words: a record is dead once its \<open>expirationDate\<close> is in the past;
  a record with no \<open>expirationDate\<close> is a session cookie and stays alive.
  \<open>properExpiration\<close> holds of the records whose \<open>expirationDate\<close> is \<open>null\<close> or a number
  other than 0.
\<close>

definition expirationInPast :: "real \<Rightarrow> cookie \<Rightarrow> bool" where
  "expirationInPast now c =
     (case expirationDate c of None \<Rightarrow> False | Some NaN \<Rightarrow> False | Some (Num e) \<Rightarrow> e < now)"

definition notExpired :: "real \<Rightarrow> cookie \<Rightarrow> bool" where
  "notExpired now c =
     (case expirationDate c of None \<Rightarrow> True | Some NaN \<Rightarrow> False | Some (Num e) \<Rightarrow> now < e)"

definition properExpiration :: "cookie \<Rightarrow> bool" where
  "properExpiration c =
     (case expirationDate c of None \<Rightarrow> True | Some NaN \<Rightarrow> False | Some (Num e) \<Rightarrow> e \<noteq> 0)"

text \<open>
  Following the spec's words, a reader of a \<open>Cookie\<close> header: the text is split on
  \<open>"; "\<close> and each pair on its first \<open>=\<close>; the empty text holds no pair.
\<close>

fun split_semi_space :: "string \<Rightarrow> string list" where
  "split_semi_space [] = [[]]"
| "split_semi_space [c] = [[c]]"
| "split_semi_space (a # b # cs) =
     (if a = CHR '';'' \<and> b = CHR '' '' then [] # split_semi_space cs
      else (case split_semi_space (b # cs) of [] \<Rightarrow> [[a]] | x # xs \<Rightarrow> (a # x) # xs))"

definition splitFirstEq :: "string \<Rightarrow> string \<times> string" where
  "splitFirstEq p =
     (takeWhile (\<lambda>c. c \<noteq> CHR ''='') p, drop 1 (dropWhile (\<lambda>c. c \<noteq> CHR ''='') p))"

definition parseCookiePairs :: "string \<Rightarrow> (string \<times> string) list" where
  "parseCookiePairs hdr = (if hdr = [] then [] else map splitFirstEq (split_semi_space hdr))"

definition namePair :: "cookie \<Rightarrow> string \<times> string" where
  "namePair c = (name c, cvalue c)"

text \<open>
  Example states: the session \<open>work\<close> holding, under \<open>example.com\<close>, one record that expired
  at second 1; and holding three records, of which one expired at second 5.
\<close>

definition plainCookie :: "string \<Rightarrow> string \<Rightarrow> number option \<Rightarrow> cookie" where
  "plainCookie n v e =
     \<lparr>name = n, cvalue = v, domain = ''example.com'', path = ''/'', secure = False,
      httpOnly = False, sameSite = ''Lax'', expirationDate = e\<rparr>"

definition worldWith :: "cookie obj \<Rightarrow> world" where
  "worldWith bucket = world0\<lparr>sessionCookies := Some [(''work'', [(''example.com'', bucket)])]\<rparr>"

definition worldExpired :: world where
  "worldExpired = worldWith [(''a|/'', plainCookie ''a'' ''1'' (Some (Num 1)))]"

definition worldTwo :: world where
  "worldTwo =
     worldWith [(''a|/'', plainCookie ''a'' ''1'' None),
                (''b|/'', plainCookie ''b'' ''x=y'' (Some (Num 50))),
                (''c|/'', plainCookie ''c'' ''3'' (Some (Num 5)))]"

text \<open>
  An example host.  Its URL parser knows one URL, its date parser one date (second 5 of
  the epoch; any other text is no date), and its rule engine refuses an update that
  would leave two rules with one identifier or more than 5000 rules.
\<close>

definition exampleHost :: host where
  "exampleHost =
     \<lparr>url_hostname =
        (\<lambda>u. if u = ''https://mail.example.com/x'' then Some ''mail.example.com'' else None),
      date_parse =
        (\<lambda>v. if v = ''Thu, 01 Jan 1970 00:00:05 GMT'' then Num 5000 else NaN),
      rejects =
        (\<lambda>installed removeRuleIds addRules.
           let after = filter (\<lambda>r. ruleId r \<notin> set removeRuleIds) installed @ addRules
           in if distinct (map ruleId after) then 5000 < length after else True)\<rparr>"

text \<open>
  \<open>rulesOfTab tabId w\<close> are the rules in the engine that are scoped to the tab.
  \<open>renumber k r\<close> is the rule \<open>r\<close> under the identifier \<open>ruleId r + k\<close>.
\<close>

definition rulesOfTab :: "int \<Rightarrow> world \<Rightarrow> rule list" where
  "rulesOfTab tabId w = filter (\<lambda>r. tabId \<in> set (tabIds r)) (sessionRules w)"

definition renumber :: "nat \<Rightarrow> rule \<Rightarrow> rule" where
  "renumber k r = r\<lparr>ruleId := ruleId r + k\<rparr>"

text \<open>
  Example states for the rule engine.  In \<open>worldClash\<close> the engine already holds a rule
  with the identifier 1, scoped to tab 7, while the counter stands at 1.  In
  \<open>worldBound\<close> tab 3 is bound to the session \<open>work\<close> with its two rules installed.
\<close>

definition worldClash :: world where
  "worldClash = world0\<lparr>sessionRules := [setCookieRule 0 7]\<rparr>"

definition worldBound :: world where
  "worldBound =
     world0\<lparr>sessions := Some DEFAULT_SESSIONS,
            tabSessions := Some [3 \<mapsto> \<lparr>sessionId = ''work'', ruleIds = [1, 2]\<rparr>],
            sessionCookies := Some [(''work'', [(''.example.com'',
                                  [(''a|/'', (plainCookie ''a'' ''1'' None)\<lparr>domain := ''.example.com''\<rparr>)])])],
            ruleIdCounter := Some 101,
            tabCache := [3 \<mapsto> \<lparr>sessionId = ''work'', ruleIds = [1, 2],
                                 domains = {''example.com''}\<rparr>],
            sessionRules := [cookieRule 1 3 ''a=1'', setCookieRule 1 3]\<rparr>"

text \<open>
  \<open>newRules\<close> are the two rules that \<open>createRulesForTab\<close> builds for a tab of a session
  other than \<open>default\<close> on the host name \<open>d\<close>.  \<open>installAccepted\<close> says that the engine
  accepts both updates of \<open>applyRulesForTab\<close>: the removal of the old rules (made only
  when the tab has some) and the addition of the new ones.
\<close>

definition newRules :: "world \<Rightarrow> real \<Rightarrow> int \<Rightarrow> string \<Rightarrow> string \<Rightarrow> rule list" where
  "newRules w now tabId s d =
     [cookieRule (currentRuleId w) tabId (buildCookieHeader w now s d),
      setCookieRule (currentRuleId w) tabId]"

definition addRejected :: "host \<Rightarrow> world \<Rightarrow> real \<Rightarrow> int \<Rightarrow> string \<Rightarrow> string \<Rightarrow> bool" where
  "addRejected h w now tabId s d =
     rejects h (sessionRules (removeOldRules h w tabId)) [] (newRules w now tabId s d)"

definition removalRejected :: "host \<Rightarrow> world \<Rightarrow> int \<Rightarrow> bool" where
  "removalRejected h w tabId =
     (if ruleIds (cachedTabInfo w tabId) = [] then False
      else rejects h (sessionRules w) (ruleIds (cachedTabInfo w tabId)) [])"

definition installAccepted :: "host \<Rightarrow> world \<Rightarrow> real \<Rightarrow> int \<Rightarrow> string \<Rightarrow> string \<Rightarrow> bool" where
  "installAccepted h w now tabId s d =
     (if removalRejected h w tabId then False else \<not> addRejected h w now tabId s d)"

text \<open>
  \<open>noExpiryBetween now now' cs\<close>: no record of \<open>cs\<close> has an \<open>expirationDate\<close> later than
  \<open>now\<close> and not later than \<open>now'\<close>, that is, none expires between the two times.
\<close>

definition noExpiryBetween :: "real \<Rightarrow> real \<Rightarrow> cookie list \<Rightarrow> bool" where
  "noExpiryBetween now now' cs =
     list_all (\<lambda>c. case expirationDate c of
                      None \<Rightarrow> True
                    | Some NaN \<Rightarrow> True
                    | Some (Num e) \<Rightarrow> if now < e then now' < e else True) cs"

text \<open>
  States reached by the code.  \<open>epochHost\<close> is the example host whose date parser also
  knows the epoch itself.  \<open>worldEpoch\<close>: from the initial state, a response on
  \<open>mail.example.com\<close> deletes the cookie \<open>sid\<close> in the usual way, by an \<open>Expires\<close> at the
  epoch.  \<open>worldMaxAge\<close>: at second 10 a response sets \<open>b=x\<close> for 40 seconds.
  \<open>worldBoundExpiring\<close> is \<open>worldBound\<close> with a cookie that expires at second 50.
\<close>

definition epochHost :: host where
  "epochHost =
     exampleHost\<lparr>date_parse :=
       (\<lambda>v. if v = ''Thu, 01 Jan 1970 00:00:00 GMT'' then Num 0 else date_parse exampleHost v)\<rparr>"

definition worldEpoch :: world where
  "worldEpoch =
     captureSetCookie epochHost 100 world0 ''work''
       ''sid=deleted; Expires=Thu, 01 Jan 1970 00:00:00 GMT'' ''https://mail.example.com/x''"

definition worldMaxAge :: world where
  "worldMaxAge =
     captureSetCookie exampleHost 10 world0 ''work''
       ''b=x; Max-Age=40'' ''https://mail.example.com/x''"

definition worldBoundExpiring :: world where
  "worldBoundExpiring =
     worldBound\<lparr>sessionCookies :=
       Some [(''work'', [(''.example.com'',
          [(''a|/'', (plainCookie ''a'' ''1'' (Some (Num 50)))\<lparr>domain := ''.example.com''\<rparr>)])])]\<rparr>"

section \<open>Properties\<close>

subsection \<open>The domain-match test\<close>

lemma startsWith_dot: "startsWith c ''.'' \<longleftrightarrow> (\<exists>d. c = CHR ''.'' # d)"
  by (cases c) (auto simp: startsWith_def)

lemma endsWith_append: "endsWith r c \<longleftrightarrow> (\<exists>p. r = p @ c)"
proof
  assume "endsWith r c"
  then have "r = take (length r - length c) r @ c"
    by (metis append_take_drop_id endsWith_def)
  then show "\<exists>p. r = p @ c" ..
next
  assume "\<exists>p. r = p @ c"
  then show "endsWith r c" by (auto simp: endsWith_def)
qed

text \<open>
  Claim C1.  The domain-match test rejects every pair with an empty request domain or an
  empty stored domain.  On the other pairs it accepts exactly when the stored domain is a
  dot followed by some \<open>d\<close> and the request domain is \<open>d\<close> or ends with the whole dotted
  string, or the stored domain has no leading dot and is equal to the request domain.
\<close>

theorem domainMatches_iff:
  "domainMatches r c \<longleftrightarrow>
     r \<noteq> [] \<and> c \<noteq> [] \<and>
     ((\<exists>d. c = CHR ''.'' # d \<and> (r = d \<or> (\<exists>p. r = p @ c)))
      \<or> ((\<nexists>d. c = CHR ''.'' # d) \<and> r = c))"
  by (cases c) (auto simp: domainMatches_def startsWith_dot endsWith_append slice_from_def)

subsection \<open>The rule-id allocator\<close>

lemma currentRuleId_next: "currentRuleId (snd (getNextRuleId w)) = currentRuleId w + 100"
  by (simp add: getNextRuleId_def currentRuleId_def Let_def)

lemma nextRuleIds_length: "length (nextRuleIds n w) = n"
  by (induction n arbitrary: w) simp_all

lemma nextRuleIds_nth: "i < n \<Longrightarrow> nextRuleIds n w ! i = currentRuleId w + 100 * i"
proof (induction n arbitrary: w i)
  case 0
  then show ?case by simp
next
  case (Suc n)
  show ?case
  proof (cases i)
    case 0
    then show ?thesis by (simp add: getNextRuleId_def Let_def)
  next
    case (Suc k)
    with Suc.prems have "k < n" by simp
    from Suc.IH [OF this] Suc show ?thesis by (simp add: currentRuleId_next)
  qed
qed

text \<open>
  Claim C9.  A call of \<open>getNextRuleId\<close> returns the current value of the counter (read
  as the code reads it: 1 when the key is not set) and leaves the counter 100 higher; on an
  initialised counter \<open>c\<close> it returns \<open>c\<close> and stores \<open>c + 100\<close>.  Of the identifiers
  returned by any number of calls made one after the other, a later one is at least 100
  above an earlier one, and their blocks of 100 identifiers are disjoint.
\<close>

theorem getNextRuleId_monotonic:
  "fst (getNextRuleId w) = currentRuleId w
   \<and> currentRuleId (snd (getNextRuleId w)) = currentRuleId w + 100
   \<and> (\<forall>c. ruleIdCounter w = Some c \<and> c \<noteq> 0 \<longrightarrow>
          getNextRuleId w = (c, w\<lparr>ruleIdCounter := Some (c + 100)\<rparr>))
   \<and> (\<forall>i j. i < j \<and> j < n \<longrightarrow>
          nextRuleIds n w ! i + 100 \<le> nextRuleIds n w ! j
          \<and> ruleIdBlock (nextRuleIds n w ! i) \<inter> ruleIdBlock (nextRuleIds n w ! j) = {})"
proof -
  have a: "fst (getNextRuleId w) = currentRuleId w"
    by (simp add: getNextRuleId_def Let_def)
  have c: "\<forall>c. ruleIdCounter w = Some c \<and> c \<noteq> 0 \<longrightarrow>
          getNextRuleId w = (c, w\<lparr>ruleIdCounter := Some (c + 100)\<rparr>)"
    by (simp add: getNextRuleId_def currentRuleId_def Let_def)
  have d: "nextRuleIds n w ! i + 100 \<le> nextRuleIds n w ! j
          \<and> ruleIdBlock (nextRuleIds n w ! i) \<inter> ruleIdBlock (nextRuleIds n w ! j) = {}"
    if "i < j" "j < n" for i j
  proof -
    from that have "i < n" by simp
    with that show ?thesis
      by (auto simp: nextRuleIds_nth ruleIdBlock_def)
  qed
  from a c d currentRuleId_next show ?thesis by blast
qed

theorem getNextRuleId_monotonic_witness:
  "getNextRuleId world0 = (1, world0\<lparr>ruleIdCounter := Some 101\<rparr>)
   \<and> nextRuleIds 3 world0 ! 0 + 100 \<le> nextRuleIds 3 world0 ! 2
   \<and> ruleIdBlock (nextRuleIds 3 world0 ! 0) \<inter> ruleIdBlock (nextRuleIds 3 world0 ! 2) = {}
   \<and> nextRuleIds 3 world0 = [1, 101, 201]"
proof -
  have r: "ruleIdCounter world0 = Some 1" by (simp add: world0_def)
  have l: "nextRuleIds 3 world0 = [1, 101, 201]"
    by (simp add: numeral_3_eq_3 getNextRuleId_def currentRuleId_def world0_def Let_def)
  note t = getNextRuleId_monotonic [of world0 3]
  from t r have a: "getNextRuleId world0 = (1, world0\<lparr>ruleIdCounter := Some 101\<rparr>)"
    by simp
  from t have "(0::nat) < 2 \<and> (2::nat) < 3 \<longrightarrow>
     nextRuleIds 3 world0 ! 0 + 100 \<le> nextRuleIds 3 world0 ! 2
     \<and> ruleIdBlock (nextRuleIds 3 world0 ! 0) \<inter> ruleIdBlock (nextRuleIds 3 world0 ! 2) = {}"
    by blast
  then have b: "nextRuleIds 3 world0 ! 0 + 100 \<le> nextRuleIds 3 world0 ! 2
     \<and> ruleIdBlock (nextRuleIds 3 world0 ! 0) \<inter> ruleIdBlock (nextRuleIds 3 world0 ! 2) = {}"
    by simp
  from a b l show ?thesis by blast
qed

subsection \<open>The domain query of the store\<close>

lemma collectCookies_acc:
  "collectCookies allCookies d ks cookies =
     cookies @ concat (map (\<lambda>k. if domainMatches d k
                                  then (case map_of allCookies k of None \<Rightarrow> [] | Some b \<Rightarrow> map snd b)
                                  else []) ks)"
  by (induction ks arbitrary: cookies) simp_all

lemma concat_map_filter:
  "concat (map (\<lambda>kb. if P (fst kb) then G (snd kb) else []) xs)
     = concat (map (\<lambda>kb. G (snd kb)) (filter (\<lambda>kb. P (fst kb)) xs))"
  by (induction xs) simp_all

lemma map_of_keys:
  assumes "distinct (map fst allCookies)"
  shows "map (\<lambda>k. F k (map_of allCookies k)) (map fst allCookies)
           = map (\<lambda>kb. F (fst kb) (Some (snd kb))) allCookies"
proof -
  have *: "map_of allCookies (fst kb) = Some (snd kb)" if "kb \<in> set allCookies" for kb
    using that by (simp add: map_of_eq_Some_iff [OF assms])
  have "map (\<lambda>k. F k (map_of allCookies k)) (map fst allCookies)
          = map (\<lambda>kb. F (fst kb) (map_of allCookies (fst kb))) allCookies"
    by (simp add: comp_def)
  also have "\<dots> = map (\<lambda>kb. F (fst kb) (Some (snd kb))) allCookies"
    by (rule map_cong [OF refl]) (simp add: *)
  finally show ?thesis .
qed

lemma collectCookies_matching:
  assumes "distinct (map fst allCookies)"
  shows "collectCookies allCookies d (map fst allCookies) [] = matchingCookies allCookies d"
proof -
  let ?F = "\<lambda>k v. if domainMatches d k
                    then (case v of None \<Rightarrow> [] | Some b \<Rightarrow> map snd b) else ([] :: cookie list)"
  have "collectCookies allCookies d (map fst allCookies) []
          = concat (map (\<lambda>k. ?F k (map_of allCookies k)) (map fst allCookies))"
    by (simp add: collectCookies_acc)
  also have "\<dots> = concat (map (\<lambda>kb. ?F (fst kb) (Some (snd kb))) allCookies)"
    by (rule arg_cong [where f = concat]) (rule map_of_keys [OF assms, of ?F])
  also have "\<dots> = concat (map (\<lambda>kb. if domainMatches d (fst kb) then map snd (snd kb) else []) allCookies)"
    by (simp cong: if_cong)
  also have "\<dots> = matchingCookies allCookies d"
    unfolding matchingCookies_def by (rule concat_map_filter)
  finally show ?thesis .
qed

lemma getSessionCookiesForDomain_matching:
  "distinct (map fst (getSessionCookies w s)) \<Longrightarrow>
     getSessionCookiesForDomain w s d = matchingCookies (getSessionCookies w s) d"
  by (simp add: getSessionCookiesForDomain_def collectCookies_matching)

lemmas world_eval = worldWith_def world0_def plainCookie_def getSessionCookiesForDomain_def
  getSessionCookies_def domainMatches_def startsWith_def endsWith_def slice_from_def

text \<open>
  The domain query does not look at \<open>expirationDate\<close>: at second 2 it still returns the
  record that expired at second 1.
\<close>

theorem getSessionCookiesForDomain_expired_counterexample:
  "getSessionCookiesForDomain worldExpired ''work'' ''example.com''
     = [plainCookie ''a'' ''1'' (Some (Num 1))]
   \<and> expirationInPast 2 (plainCookie ''a'' ''1'' (Some (Num 1)))"
  by (simp add: worldExpired_def world_eval expirationInPast_def)

lemma past_not_kept:
  "expirationInPast now c \<Longrightarrow> expirationDate c \<noteq> Some (Num 0) \<Longrightarrow> \<not> keepsCookie now c"
  by (auto simp: expirationInPast_def keepsCookie_def split: option.splits number.splits)

lemma keepsCookie_proper: "properExpiration c \<Longrightarrow> keepsCookie now c = notExpired now c"
  by (auto simp: properExpiration_def keepsCookie_def notExpired_def
           split: option.splits number.splits)

text \<open>
  Claim C2, as amended.  \<open>getSessionCookiesForDomain\<close> returns exactly the records stored
  under the domain keys that match the request domain under the domain-match rule, in the
  order of the store and whatever their \<open>expirationDate\<close> (the domain keys of the session
  being distinct, as the keys of an object are).  The expiry filter is the one of its
  caller: the header that \<open>buildCookieHeader\<close> returns is built from the records of the
  query result that pass a filter, in their order; no record whose \<open>expirationDate\<close> is a
  number other than 0 in the past passes it, and every record whose \<open>expirationDate\<close> is
  \<open>null\<close>, or a number other than 0 that is later than the time of the call, does.
\<close>

theorem getSessionCookiesForDomain_amended:
  "(distinct (map fst (getSessionCookies w s)) \<longrightarrow>
      getSessionCookiesForDomain w s d = matchingCookies (getSessionCookies w s) d)
   \<and> (\<exists>P. buildCookieHeader w now s d
             = join ''; '' (map cookiePair (filter P (getSessionCookiesForDomain w s d)))
          \<and> (\<forall>c. expirationInPast now c \<and> expirationDate c \<noteq> Some (Num 0) \<longrightarrow> \<not> P c)
          \<and> (\<forall>c. properExpiration c \<and> notExpired now c \<longrightarrow> P c))"
proof -
  have "buildCookieHeader w now s d
          = join ''; '' (map cookiePair (filter (keepsCookie now) (getSessionCookiesForDomain w s d)))"
    by (simp add: buildCookieHeader_def)
  moreover have "\<forall>c. expirationInPast now c \<and> expirationDate c \<noteq> Some (Num 0)
                   \<longrightarrow> \<not> keepsCookie now c"
    using past_not_kept by blast
  moreover have "\<forall>c. properExpiration c \<and> notExpired now c \<longrightarrow> keepsCookie now c"
    using keepsCookie_proper by blast
  ultimately have "\<exists>P. buildCookieHeader w now s d
             = join ''; '' (map cookiePair (filter P (getSessionCookiesForDomain w s d)))
          \<and> (\<forall>c. expirationInPast now c \<and> expirationDate c \<noteq> Some (Num 0) \<longrightarrow> \<not> P c)
          \<and> (\<forall>c. properExpiration c \<and> notExpired now c \<longrightarrow> P c)"
    by blast
  with getSessionCookiesForDomain_matching show ?thesis by blast
qed

theorem getSessionCookiesForDomain_amended_witness:
  "distinct (map fst (getSessionCookies worldTwo ''work''))
   \<and> getSessionCookiesForDomain worldTwo ''work'' ''example.com''
       = [plainCookie ''a'' ''1'' None, plainCookie ''b'' ''x=y'' (Some (Num 50)),
          plainCookie ''c'' ''3'' (Some (Num 5))]
   \<and> expirationInPast 10 (plainCookie ''c'' ''3'' (Some (Num 5)))
   \<and> buildCookieHeader worldTwo 10 ''work'' ''example.com'' = ''a=1; b=x=y''"
proof -
  let ?a = "plainCookie ''a'' ''1'' None"
  let ?b = "plainCookie ''b'' ''x=y'' (Some (Num 50))"
  let ?c = "plainCookie ''c'' ''3'' (Some (Num 5))"
  have d: "distinct (map fst (getSessionCookies worldTwo ''work''))"
    by (simp add: worldTwo_def world_eval)
  have m: "matchingCookies (getSessionCookies worldTwo ''work'') ''example.com'' = [?a, ?b, ?c]"
    by (simp add: worldTwo_def world_eval matchingCookies_def)
  have pc: "expirationInPast 10 ?c \<and> expirationDate ?c \<noteq> Some (Num 0)"
    by (simp add: expirationInPast_def plainCookie_def)
  have pa: "properExpiration ?a \<and> notExpired 10 ?a"
    by (simp add: properExpiration_def notExpired_def plainCookie_def)
  have pb: "properExpiration ?b \<and> notExpired 10 ?b"
    by (simp add: properExpiration_def notExpired_def plainCookie_def)
  note t = getSessionCookiesForDomain_amended [of worldTwo "''work''" "''example.com''" 10]
  from t d m have q: "getSessionCookiesForDomain worldTwo ''work'' ''example.com'' = [?a, ?b, ?c]"
    by simp
  from t obtain P where
    h: "buildCookieHeader worldTwo 10 ''work'' ''example.com''
          = join ''; '' (map cookiePair (filter P (getSessionCookiesForDomain worldTwo ''work'' ''example.com'')))"
    and dead: "\<forall>c. expirationInPast 10 c \<and> expirationDate c \<noteq> Some (Num 0) \<longrightarrow> \<not> P c"
    and live: "\<forall>c. properExpiration c \<and> notExpired 10 c \<longrightarrow> P c"
    by blast
  from dead pc have "\<not> P ?c" by blast
  moreover from live pa have "P ?a" by blast
  moreover from live pb have "P ?b" by blast
  ultimately have "filter P [?a, ?b, ?c] = [?a, ?b]" by simp
  with h q have "buildCookieHeader worldTwo 10 ''work'' ''example.com''
                   = join ''; '' (map cookiePair [?a, ?b])" by simp
  then have b: "buildCookieHeader worldTwo 10 ''work'' ''example.com'' = ''a=1; b=x=y''"
    by (simp add: cookiePair_def plainCookie_def)
  from d q pc b show ?thesis by blast
qed

subsection \<open>The Cookie header\<close>

lemma split_semi_space_cons:
  "CHR '';'' \<noteq> c \<Longrightarrow>
     split_semi_space (c # s) = (case split_semi_space s of [] \<Rightarrow> [[c]] | x # xs \<Rightarrow> (c # x) # xs)"
  by (cases s) auto

lemma split_semi_space_plain: "CHR '';'' \<notin> set x \<Longrightarrow> split_semi_space x = [x]"
  by (induction x) (simp_all add: split_semi_space_cons)

lemma split_semi_space_append:
  "CHR '';'' \<notin> set x \<Longrightarrow> split_semi_space (x @ ''; '' @ rest) = x # split_semi_space rest"
  by (induction x) (simp_all add: split_semi_space_cons)

lemma split_semi_space_join:
  "xs \<noteq> [] \<Longrightarrow> \<forall>x\<in>set xs. CHR '';'' \<notin> set x \<Longrightarrow> split_semi_space (join ''; '' xs) = xs"
proof (induction "''; ''" xs rule: join.induct)
  case 1
  then show ?case by simp
next
  case (2 x)
  then show ?case by (simp add: split_semi_space_plain)
next
  case (3 x y ys)
  then have "split_semi_space (join ''; '' (y # ys)) = y # ys" by simp
  moreover from 3 have "CHR '';'' \<notin> set x" by simp
  ultimately show ?case
    using split_semi_space_append [of x "join ''; '' (y # ys)"] by simp
qed

lemma splitFirstEq_pair:
  "CHR ''='' \<notin> set n \<Longrightarrow> splitFirstEq (n @ CHR ''='' # v) = (n, v)"
  by (simp add: splitFirstEq_def takeWhile_append dropWhile_append)

lemma join_Nil_iff: "join sep xs = [] \<Longrightarrow> xs = [] \<or> hd xs = []"
  by (induction sep xs rule: join.induct) simp_all

lemma cookiePair_not_Nil: "cookiePair c \<noteq> []"
  by (simp add: cookiePair_def)

lemma parseCookiePairs_join:
  assumes "\<forall>c\<in>set cs. CHR ''='' \<notin> set (name c) \<and> CHR '';'' \<notin> set (name c)
             \<and> CHR '';'' \<notin> set (cvalue c)"
  shows "parseCookiePairs (join ''; '' (map cookiePair cs)) = map namePair cs"
proof (cases cs)
  case Nil
  then show ?thesis by (simp add: parseCookiePairs_def)
next
  case (Cons c cs')
  then have ne: "join ''; '' (map cookiePair cs) \<noteq> []"
    using join_Nil_iff [of "''; ''" "map cookiePair cs"] by (auto simp: cookiePair_not_Nil)
  have semi: "\<forall>x\<in>set (map cookiePair cs). CHR '';'' \<notin> set x"
    using assms by (auto simp: cookiePair_def)
  have "split_semi_space (join ''; '' (map cookiePair cs)) = map cookiePair cs"
    using Cons semi by (intro split_semi_space_join) simp_all
  moreover have "map splitFirstEq (map cookiePair cs) = map namePair cs"
    using assms by (simp add: cookiePair_def namePair_def splitFirstEq_pair)
  ultimately show ?thesis using ne by (simp add: parseCookiePairs_def)
qed

text \<open>
  The round trip of the header.  Take a store in which no record matching the request has
  \<open>=\<close> or \<open>;\<close> in its name or \<open>;\<close> in its value (as holds of every record that
  \<open>parseSetCookie\<close> returns) and in which each expirationDate is \<open>null\<close> or a number other
  than 0.  Then \<open>buildCookieHeader\<close> serialises exactly the matching records whose
  expirationDate is \<open>null\<close> or later than the time of the call, and reading the header
  back gives exactly their name/value pairs, in order.
\<close>

lemma buildCookieHeader_roundtrip:
  assumes "\<forall>c\<in>set (getSessionCookiesForDomain w s d).
             CHR ''='' \<notin> set (name c) \<and> CHR '';'' \<notin> set (name c) \<and> CHR '';'' \<notin> set (cvalue c)
             \<and> properExpiration c"
  shows "buildCookieHeader w now s d
           = join ''; '' (map cookiePair (filter (notExpired now) (getSessionCookiesForDomain w s d)))
         \<and> parseCookiePairs (buildCookieHeader w now s d)
           = map namePair (filter (notExpired now) (getSessionCookiesForDomain w s d))
         \<and> (filter (notExpired now) (getSessionCookiesForDomain w s d) = []
              \<longleftrightarrow> buildCookieHeader w now s d = [])"
proof -
  let ?q = "getSessionCookiesForDomain w s d"
  have f: "filter (keepsCookie now) ?q = filter (notExpired now) ?q"
    using assms by (intro filter_cong) (simp_all add: keepsCookie_proper)
  then have h: "buildCookieHeader w now s d = join ''; '' (map cookiePair (filter (notExpired now) ?q))"
    by (simp add: buildCookieHeader_def)
  have "\<forall>c\<in>set (filter (notExpired now) ?q). CHR ''='' \<notin> set (name c) \<and> CHR '';'' \<notin> set (name c)
             \<and> CHR '';'' \<notin> set (cvalue c)"
    using assms by simp
  from parseCookiePairs_join [OF this] h
  have p: "parseCookiePairs (buildCookieHeader w now s d) = map namePair (filter (notExpired now) ?q)"
    by simp
  have e: "filter (notExpired now) ?q = [] \<longleftrightarrow> buildCookieHeader w now s d = []"
  proof
    assume "filter (notExpired now) ?q = []"
    with h show "buildCookieHeader w now s d = []" by simp
  next
    assume "buildCookieHeader w now s d = []"
    with h join_Nil_iff [of "''; ''" "map cookiePair (filter (notExpired now) ?q)"]
    show "filter (notExpired now) ?q = []"
      by (cases "filter (notExpired now) ?q") (auto simp: cookiePair_not_Nil)
  qed
  from h p e show ?thesis by blast
qed

subsection \<open>The Set-Cookie parser\<close>

lemmas js_eval = trim_def isWhiteSpace_def toLowerCase_def lowerChar_def char_of_def bit_0
  substring_def substring_from_def clampIndex_def attrName_def attrValue_def applyAttr_def
  parseInt_def isDigit_def digitValue_def startsWith_def

lemma split_on_not_Nil: "split_on sep s \<noteq> []"
  by (induction s) (auto split: list.splits)

lemma applyAttrs_append:
  "applyAttrs h now c (xs @ ys) = applyAttrs h now (applyAttrs h now c xs) ys"
  by (induction xs arbitrary: c) simp_all

lemma expirationDate_applyAttr:
  "expirationDate (applyAttr h now c a) =
     (if attrName a = ''expires'' then Some (num_div (date_parse h (attrValue a)) 1000)
      else if attrName a = ''max-age'' then Some (num_add (Num now) (parseInt (attrValue a)))
      else expirationDate c)"
  by (simp add: applyAttr_def Let_def)

lemma expirationDate_applyAttrs_other:
  "\<forall>b\<in>set post. attrName b \<noteq> ''expires'' \<and> attrName b \<noteq> ''max-age'' \<Longrightarrow>
     expirationDate (applyAttrs h now c post) = expirationDate c"
  by (induction post arbitrary: c) (simp_all add: expirationDate_applyAttr)

lemma expirationDate_last_attr:
  assumes "\<forall>b\<in>set post. attrName b \<noteq> ''expires'' \<and> attrName b \<noteq> ''max-age''"
  shows "expirationDate (applyAttrs h now c (pre @ a # post))
           = expirationDate (applyAttr h now (applyAttrs h now c pre) a)"
  using assms by (simp add: applyAttrs_append expirationDate_applyAttrs_other)

lemma parseSetCookie_parts:
  assumes "url_hostname h url = Some hn" and "map trim (split_on CHR '';'' header) = nv # attrs"
  shows "parseSetCookie h now header url =
           Some (applyAttrs h now
                  \<lparr>name = substring 0 (indexOf CHR ''='' nv) nv,
                   cvalue = substring_from (indexOf CHR ''='' nv + 1) nv,
                   domain = hn, path = ''/'', secure = False, httpOnly = False,
                   sameSite = ''Lax'', expirationDate = None\<rparr> attrs)"
  using assms by (simp add: parseSetCookie_def Let_def)

text \<open>
  Claim C5, as amended.  The loop over the attributes takes them in the order of the
  header, and both \<open>expires\<close> and \<open>max-age\<close> overwrite \<open>expirationDate\<close>: the last of them
  wins.  So for every header text in which a \<open>Max-Age\<close> attribute is followed by no further
  \<open>Expires\<close> or \<open>Max-Age\<close> attribute (whatever stands before it) and every source URL that
  parses, \<open>parseSetCookie\<close> at time \<open>T\<close> yields \<open>expirationDate = T + parseInt(value)\<close>.
  In particular \<open>token=zzz; Domain=example.com; Max-Age=60\<close> yields \<open>T + 60\<close> and the
  domain \<open>.example.com\<close>.
\<close>

theorem parseSetCookie_maxAge_last:
  "(url_hostname h url = Some hn
      \<and> map trim (split_on CHR '';'' header) = nv # pre @ a # post
      \<and> attrName a = ''max-age''
      \<and> (\<forall>b\<in>set post. attrName b \<noteq> ''expires'' \<and> attrName b \<noteq> ''max-age'')
    \<longrightarrow> (\<exists>c. parseSetCookie h T header url = Some c
             \<and> expirationDate c = Some (num_add (Num T) (parseInt (attrValue a)))))
   \<and> (url_hostname h url = Some hn
    \<longrightarrow> (\<exists>c. parseSetCookie h T ''token=zzz; Domain=example.com; Max-Age=60'' url = Some c
             \<and> expirationDate c = Some (Num (T + 60)) \<and> domain c = ''.example.com''))"
proof (intro conjI impI)
  assume a: "url_hostname h url = Some hn
      \<and> map trim (split_on CHR '';'' header) = nv # pre @ a # post
      \<and> attrName a = ''max-age''
      \<and> (\<forall>b\<in>set post. attrName b \<noteq> ''expires'' \<and> attrName b \<noteq> ''max-age'')"
  then have "\<forall>b\<in>set post. attrName b \<noteq> ''expires'' \<and> attrName b \<noteq> ''max-age''" by blast
  note l = expirationDate_last_attr [OF this]
  from a parseSetCookie_parts [of h url hn header nv "pre @ a # post" T]
  show "\<exists>c. parseSetCookie h T header url = Some c
             \<and> expirationDate c = Some (num_add (Num T) (parseInt (attrValue a)))"
    by (simp add: l expirationDate_applyAttr)
next
  assume "url_hostname h url = Some hn"
  then show "\<exists>c. parseSetCookie h T ''token=zzz; Domain=example.com; Max-Age=60'' url = Some c
             \<and> expirationDate c = Some (Num (T + 60)) \<and> domain c = ''.example.com''"
    by (simp add: parseSetCookie_def js_eval)
qed

text \<open>
  With \<open>Expires\<close> after \<open>Max-Age\<close> the date of \<open>Expires\<close> stays: at time 100 the result
  is second 5, not second 160.
\<close>

theorem parseSetCookie_maxAge_counterexample:
  "parseSetCookie exampleHost 100
      ''a=b; Max-Age=60; Expires=Thu, 01 Jan 1970 00:00:05 GMT'' ''https://mail.example.com/x''
     = Some \<lparr>name = ''a'', cvalue = ''b'', domain = ''mail.example.com'', path = ''/'',
             secure = False, httpOnly = False, sameSite = ''Lax'',
             expirationDate = Some (Num 5)\<rparr>"
  by (simp add: parseSetCookie_def exampleHost_def js_eval)

theorem parseSetCookie_maxAge_last_witness:
  "parseSetCookie exampleHost 100
      ''a=b; Expires=Thu, 01 Jan 1970 00:00:05 GMT; max-age=60; Secure'' ''https://mail.example.com/x''
     = Some \<lparr>name = ''a'', cvalue = ''b'', domain = ''mail.example.com'', path = ''/'',
             secure = True, httpOnly = False, sameSite = ''Lax'',
             expirationDate = Some (Num 160)\<rparr>
   \<and> (\<exists>c. parseSetCookie exampleHost 100 ''token=zzz; Domain=example.com; Max-Age=60''
             ''https://mail.example.com/x'' = Some c
          \<and> expirationDate c = Some (Num 160) \<and> domain c = ''.example.com'')"
proof -
  let ?hdr = "''a=b; Expires=Thu, 01 Jan 1970 00:00:05 GMT; max-age=60; Secure''"
  let ?url = "''https://mail.example.com/x''"
  have u: "url_hostname exampleHost ?url = Some ''mail.example.com''"
    by (simp add: exampleHost_def)
  have s: "map trim (split_on CHR '';'' ?hdr)
             = ''a=b'' # [''Expires=Thu, 01 Jan 1970 00:00:05 GMT''] @ ''max-age=60'' # [''Secure'']"
    by (simp add: trim_def isWhiteSpace_def)
  have n: "attrName ''max-age=60'' = ''max-age''"
    by (simp add: js_eval)
  have o: "\<forall>b\<in>set [''Secure'']. attrName b \<noteq> ''expires'' \<and> attrName b \<noteq> ''max-age''"
    by (simp add: js_eval)
  have v: "parseInt (attrValue ''max-age=60'') = Num 60"
    by (simp add: js_eval)
  note t = parseSetCookie_maxAge_last [of exampleHost ?url "''mail.example.com''" ?hdr
      "''a=b''" "[''Expires=Thu, 01 Jan 1970 00:00:05 GMT'']" "''max-age=60''" "[''Secure'']" 100]
  from t u s n o v
  have 1: "\<exists>c. parseSetCookie exampleHost 100 ?hdr ?url = Some c \<and> expirationDate c = Some (Num 160)"
    by simp
  have 2: "parseSetCookie exampleHost 100 ?hdr ?url
     = Some \<lparr>name = ''a'', cvalue = ''b'', domain = ''mail.example.com'', path = ''/'',
             secure = True, httpOnly = False, sameSite = ''Lax'',
             expirationDate = Some (Num 160)\<rparr>"
    by (simp add: parseSetCookie_def exampleHost_def js_eval)
  from t u
  have 3: "\<exists>c. parseSetCookie exampleHost 100 ''token=zzz; Domain=example.com; Max-Age=60''
             ?url = Some c
          \<and> expirationDate c = Some (Num 160) \<and> domain c = ''.example.com''"
    by simp
  from 1 2 3 show ?thesis by blast
qed

lemma indexOf_absent: "c \<notin> set s \<Longrightarrow> indexOf c s = - 1"
  by (induction s) (auto simp: Let_def)

lemma set_trim: "set (trim s) \<subseteq> set s"
proof -
  have "set (trim s) \<subseteq> set (dropWhile isWhiteSpace s)"
    unfolding trim_def using set_dropWhileD [of _ isWhiteSpace "rev (dropWhile isWhiteSpace s)"]
    by auto
  also have "\<dots> \<subseteq> set s"
    using set_dropWhileD [of _ isWhiteSpace s] by auto
  finally show ?thesis .
qed

lemma applyAttr_name_value:
  "applyAttr h now (c\<lparr>name := n, cvalue := v\<rparr>) a = (applyAttr h now c a)\<lparr>name := n, cvalue := v\<rparr>"
  by (simp add: applyAttr_def Let_def)

lemma applyAttrs_name_value:
  "applyAttrs h now (c\<lparr>name := n, cvalue := v\<rparr>) attrs
     = (applyAttrs h now c attrs)\<lparr>name := n, cvalue := v\<rparr>"
  by (induction attrs arbitrary: c) (simp_all add: applyAttr_name_value)

lemma name_applyAttr: "name (applyAttr h now c a) = name c \<and> cvalue (applyAttr h now c a) = cvalue c"
  by (simp add: applyAttr_def Let_def)

lemma name_applyAttrs:
  "name (applyAttrs h now c attrs) = name c \<and> cvalue (applyAttrs h now c attrs) = cvalue c"
  by (induction attrs arbitrary: c) (simp_all add: name_applyAttr)

text \<open>
  Claim C10.  When the first segment of the header has no \<open>=\<close> and the source URL
  parses, \<open>parseSetCookie\<close> returns a record: its name is the empty string, its value is
  the whole first segment (trimmed, as every segment is), and the other segments are
  processed as for any header: the record is what the attribute loop makes of the initial
  record, and it agrees in every other field with the record parsed from any header that
  has the same segments after the first.
\<close>

theorem parseSetCookie_no_equals:
  "url_hostname h url = Some hn \<and> split_on CHR '';'' header = seg # rest \<and> CHR ''='' \<notin> set seg
   \<longrightarrow>
     (\<exists>c. parseSetCookie h T header url = Some c \<and> name c = [] \<and> cvalue c = trim seg
        \<and> c = applyAttrs h T
                 \<lparr>name = [], cvalue = trim seg, domain = hn, path = ''/'', secure = False,
                  httpOnly = False, sameSite = ''Lax'', expirationDate = None\<rparr> (map trim rest)
        \<and> (\<forall>header' seg'. split_on CHR '';'' header' = seg' # rest \<longrightarrow>
               (\<exists>c'. parseSetCookie h T header' url = Some c'
                  \<and> c = c'\<lparr>name := [], cvalue := trim seg\<rparr>)))"
proof (intro impI)
  assume a: "url_hostname h url = Some hn \<and> split_on CHR '';'' header = seg # rest
             \<and> CHR ''='' \<notin> set seg"
  let ?init = "\<lambda>n v. \<lparr>name = n, cvalue = v, domain = hn, path = ''/'', secure = False,
                  httpOnly = False, sameSite = ''Lax'', expirationDate = None\<rparr>"
  from a set_trim [of seg] have "CHR ''='' \<notin> set (trim seg)" by blast
  then have i: "indexOf CHR ''='' (trim seg) = - 1" by (rule indexOf_absent)
  from a have p: "map trim (split_on CHR '';'' header) = trim seg # map trim rest" by simp
  from a have u: "url_hostname h url = Some hn" by blast
  have c: "parseSetCookie h T header url = Some (applyAttrs h T (?init [] (trim seg)) (map trim rest))"
    using parseSetCookie_parts [OF u p, of T]
    by (simp add: i substring_def substring_from_def clampIndex_def)
  have nv: "name (applyAttrs h T (?init [] (trim seg)) (map trim rest)) = []
            \<and> cvalue (applyAttrs h T (?init [] (trim seg)) (map trim rest)) = trim seg"
    by (simp add: name_applyAttrs)
  have o: "\<exists>c'. parseSetCookie h T header' url = Some c'
             \<and> applyAttrs h T (?init [] (trim seg)) (map trim rest) = c'\<lparr>name := [], cvalue := trim seg\<rparr>"
    if s: "split_on CHR '';'' header' = seg' # rest" for header' seg'
  proof -
    from s have p': "map trim (split_on CHR '';'' header') = trim seg' # map trim rest" by simp
    let ?n = "substring 0 (indexOf CHR ''='' (trim seg')) (trim seg')"
    let ?v = "substring_from (indexOf CHR ''='' (trim seg') + 1) (trim seg')"
    have "parseSetCookie h T header' url = Some (applyAttrs h T (?init ?n ?v) (map trim rest))"
      using parseSetCookie_parts [OF u p', of T] by simp
    moreover have "applyAttrs h T (?init [] (trim seg)) (map trim rest)
        = (applyAttrs h T (?init ?n ?v) (map trim rest))\<lparr>name := [], cvalue := trim seg\<rparr>"
      using applyAttrs_name_value [where h = h and now = T and c = "?init ?n ?v"
          and n = "[]" and v = "trim seg" and attrs = "map trim rest"]
      by simp
    ultimately show ?thesis by blast
  qed
  from c nv o show "\<exists>c. parseSetCookie h T header url = Some c \<and> name c = [] \<and> cvalue c = trim seg
        \<and> c = applyAttrs h T (?init [] (trim seg)) (map trim rest)
        \<and> (\<forall>header' seg'. split_on CHR '';'' header' = seg' # rest \<longrightarrow>
               (\<exists>c'. parseSetCookie h T header' url = Some c'
                  \<and> c = c'\<lparr>name := [], cvalue := trim seg\<rparr>))"
    by blast
qed

theorem parseSetCookie_no_equals_witness:
  "parseSetCookie exampleHost 100 ''flag; Secure; Path=/p'' ''https://mail.example.com/x''
     = Some \<lparr>name = [], cvalue = ''flag'', domain = ''mail.example.com'', path = ''/p'',
             secure = True, httpOnly = False, sameSite = ''Lax'', expirationDate = None\<rparr>"
proof -
  let ?url = "''https://mail.example.com/x''"
  have u: "url_hostname exampleHost ?url = Some ''mail.example.com''"
    by (simp add: exampleHost_def)
  have s: "split_on CHR '';'' ''flag; Secure; Path=/p'' = ''flag'' # ['' Secure'', '' Path=/p'']"
    by simp
  have e: "CHR ''='' \<notin> set ''flag''" by simp
  have t: "trim ''flag'' = ''flag''" by (simp add: trim_def isWhiteSpace_def)
  have r: "applyAttrs exampleHost 100
                 \<lparr>name = [], cvalue = ''flag'', domain = ''mail.example.com'', path = ''/'',
                  secure = False, httpOnly = False, sameSite = ''Lax'', expirationDate = None\<rparr>
                 (map trim ['' Secure'', '' Path=/p''])
     = \<lparr>name = [], cvalue = ''flag'', domain = ''mail.example.com'', path = ''/p'',
             secure = True, httpOnly = False, sameSite = ''Lax'', expirationDate = None\<rparr>"
    by (simp add: js_eval)
  from parseSetCookie_no_equals [of exampleHost ?url "''mail.example.com''"
      "''flag; Secure; Path=/p''" "''flag''" "['' Secure'', '' Path=/p'']" 100] u s e
  have "\<exists>c. parseSetCookie exampleHost 100 ''flag; Secure; Path=/p'' ?url = Some c
        \<and> c = applyAttrs exampleHost 100
                 \<lparr>name = [], cvalue = trim ''flag'', domain = ''mail.example.com'', path = ''/'',
                  secure = False, httpOnly = False, sameSite = ''Lax'', expirationDate = None\<rparr>
                 (map trim ['' Secure'', '' Path=/p''])"
    by blast
  then show ?thesis unfolding t r by simp
qed

text \<open>
  Claim C6 fails on the code.  \<open>new Date(text)\<close> does not throw on a text that is no date,
  so the \<open>try\<close> around it never reaches its \<open>catch\<close>: the date is NaN and is stored as
  the \<open>expirationDate\<close>.  \<open>parseInt\<close> of a text with no digit is NaN as well, and
  \<open>Max-Age=soon\<close> writes NaN over the date that a valid \<open>Expires\<close> before it had set.
\<close>

theorem parseSetCookie_unparsable_expiration:
  "parseSetCookie exampleHost 100 ''a=b; Expires=garbage; Path=/x'' ''https://mail.example.com/x''
     = Some \<lparr>name = ''a'', cvalue = ''b'', domain = ''mail.example.com'', path = ''/x'',
             secure = False, httpOnly = False, sameSite = ''Lax'', expirationDate = Some NaN\<rparr>
   \<and> parseSetCookie exampleHost 100
       ''a=b; Expires=Thu, 01 Jan 1970 00:00:05 GMT; Max-Age=soon'' ''https://mail.example.com/x''
     = Some \<lparr>name = ''a'', cvalue = ''b'', domain = ''mail.example.com'', path = ''/'',
             secure = False, httpOnly = False, sameSite = ''Lax'', expirationDate = Some NaN\<rparr>"
  by (simp add: parseSetCookie_def exampleHost_def js_eval)

lemma parseSetCookie_unparsable_NaN:
  assumes "url_hostname h url = Some hn"
    and "map trim (split_on CHR '';'' header) = nv # pre @ a # post"
    and "\<forall>b\<in>set post. attrName b \<noteq> ''expires'' \<and> attrName b \<noteq> ''max-age''"
    and "attrName a = ''expires'' \<and> date_parse h (attrValue a) = NaN
         \<or> attrName a = ''max-age'' \<and> parseInt (attrValue a) = NaN"
  shows "\<exists>c. parseSetCookie h T header url = Some c \<and> expirationDate c = Some NaN"
  using assms(4) parseSetCookie_parts [OF assms(1,2), of T]
  by (auto simp: expirationDate_last_attr [OF assms(3)] expirationDate_applyAttr)

lemma split_on_no_sep: "x \<in> set (split_on sep s) \<Longrightarrow> sep \<notin> set x"
proof (induction s arbitrary: x)
  case Nil
  then show ?case by simp
next
  case (Cons c cs)
  show ?case
  proof (cases "c = sep")
    case True
    with Cons show ?thesis by auto
  next
    case False
    obtain y ys where s: "split_on sep cs = y # ys"
      using split_on_not_Nil [of sep cs] by (cases "split_on sep cs") auto
    with False Cons.prems have "x = c # y \<or> x \<in> set ys" by simp
    moreover from s Cons.IH have "sep \<notin> set y" and "x \<in> set ys \<Longrightarrow> sep \<notin> set x" by simp_all
    ultimately show ?thesis using False by auto
  qed
qed

lemma indexOf_takeWhile:
  "c \<in> set s \<Longrightarrow> indexOf c s = int (length (takeWhile (\<lambda>x. x \<noteq> c) s))"
  by (induction s) (auto simp: Let_def indexOf_absent)

lemma substring_name_no_eq: "c \<notin> set (substring 0 (indexOf c s) s)"
proof (cases "c \<in> set s")
  case True
  have "length (takeWhile (\<lambda>x. x \<noteq> c) s) \<le> length s" by (rule length_takeWhile_le)
  then have "substring 0 (indexOf c s) s = take (length (takeWhile (\<lambda>x. x \<noteq> c) s)) s"
    by (simp add: indexOf_takeWhile [OF True] substring_def clampIndex_def min_def)
  also have "\<dots> = takeWhile (\<lambda>x. x \<noteq> c) s"
    by (rule takeWhile_eq_take [symmetric])
  finally show ?thesis by (auto dest: set_takeWhileD)
next
  case False
  then show ?thesis by (simp add: indexOf_absent substring_def clampIndex_def)
qed

lemma set_substring: "set (substring a b s) \<subseteq> set s"
  by (auto simp: substring_def Let_def dest: in_set_takeD in_set_dropD)

lemma set_substring_from: "set (substring_from a s) \<subseteq> set s"
  by (auto simp: substring_from_def dest: in_set_dropD)

text \<open>
  A record that \<open>parseSetCookie\<close> returns has no \<open>=\<close> and no \<open>;\<close> in its name and no
  \<open>;\<close> in its value: the header is split on \<open>;\<close> first, and the name ends before the
  first \<open>=\<close>.
\<close>

lemma parseSetCookie_name_value:
  assumes "parseSetCookie h now header url = Some c"
  shows "CHR ''='' \<notin> set (name c) \<and> CHR '';'' \<notin> set (name c) \<and> CHR '';'' \<notin> set (cvalue c)"
proof -
  obtain nv attrs where p: "map trim (split_on CHR '';'' header) = nv # attrs"
    using split_on_not_Nil [of "CHR '';''" header]
    by (cases "map trim (split_on CHR '';'' header)") auto
  then obtain seg where "seg \<in> set (split_on CHR '';'' header)" and "nv = trim seg"
    by (cases "split_on CHR '';'' header") auto
  with split_on_no_sep [of seg "CHR '';''" header] set_trim [of seg]
  have semi: "CHR '';'' \<notin> set nv" by blast
  from assms p obtain hn where u: "url_hostname h url = Some hn"
    by (auto simp: parseSetCookie_def Let_def split: option.splits)
  from assms parseSetCookie_parts [OF u p, of now]
  have c: "c = applyAttrs h now
                  \<lparr>name = substring 0 (indexOf CHR ''='' nv) nv,
                   cvalue = substring_from (indexOf CHR ''='' nv + 1) nv,
                   domain = hn, path = ''/'', secure = False, httpOnly = False,
                   sameSite = ''Lax'', expirationDate = None\<rparr> attrs"
    by simp
  have n: "name c = substring 0 (indexOf CHR ''='' nv) nv"
    and v: "cvalue c = substring_from (indexOf CHR ''='' nv + 1) nv"
    unfolding c by (simp_all add: name_applyAttrs)
  from n substring_name_no_eq [of "CHR ''=''" nv] have "CHR ''='' \<notin> set (name c)" by simp
  moreover from n semi set_substring [of 0 "indexOf CHR ''='' nv" nv]
  have "CHR '';'' \<notin> set (name c)" by auto
  moreover from v semi set_substring_from [of "indexOf CHR ''='' nv + 1" nv]
  have "CHR '';'' \<notin> set (cvalue c)" by auto
  ultimately show ?thesis by blast
qed

subsection \<open>Installing the rules of a tab\<close>

lemma removeOldRules_frame:
  "sessions (removeOldRules h w t) = sessions w"
  "tabSessions (removeOldRules h w t) = tabSessions w"
  "sessionCookies (removeOldRules h w t) = sessionCookies w"
  "ruleIdCounter (removeOldRules h w t) = ruleIdCounter w"
  "tabCache (removeOldRules h w t) = tabCache w"
  by (simp_all add: removeOldRules_def updateSessionRules_def Let_def)

lemma removeOldRules_rules:
  "sessionRules (removeOldRules h w t) =
     (if ruleIds (cachedTabInfo w t) \<noteq> []
         \<and> \<not> rejects h (sessionRules w) (ruleIds (cachedTabInfo w t)) []
      then filter (\<lambda>r. ruleId r \<notin> set (ruleIds (cachedTabInfo w t))) (sessionRules w)
      else sessionRules w)"
  by (simp add: removeOldRules_def updateSessionRules_def Let_def)

lemma buildCookieHeader_cong:
  "sessionCookies w' = sessionCookies w \<Longrightarrow> buildCookieHeader w' now s d = buildCookieHeader w now s d"
  by (simp add: buildCookieHeader_def getSessionCookiesForDomain_def getSessionCookies_def)

lemma currentRuleId_cong:
  "ruleIdCounter w' = ruleIdCounter w \<Longrightarrow> currentRuleId w' = currentRuleId w"
  by (simp add: currentRuleId_def)

lemma createRulesForTab_isolated:
  assumes "s \<noteq> ''default''" and "url_hostname h url = Some d"
  shows "createRulesForTab h now w t s url =
           ([cookieRule (currentRuleId w) t (buildCookieHeader w now s d),
             setCookieRule (currentRuleId w) t],
            w\<lparr>ruleIdCounter := Some (currentRuleId w + 100)\<rparr>)"
  using assms by (simp add: createRulesForTab_def getNextRuleId_def Let_def)

lemma applyRulesForTab_isolated:
  assumes "s \<noteq> ''default''" and "url_hostname h url = Some d"
  shows "applyRulesForTab h now w t s url =
           (let w1 = removeOldRules h w t;
                base = currentRuleId w;
                rules = [cookieRule base t (buildCookieHeader w now s d), setCookieRule base t];
                w3 = addNewRules h (w1\<lparr>ruleIdCounter := Some (base + 100)\<rparr>) rules
            in setTabInfo
                 (w3\<lparr>tabCache := (tabCache w3)
                       (t \<mapsto> \<lparr>sessionId = s, ruleIds = [base, Suc base], domains = {d}\<rparr>)\<rparr>)
                 t s [base, Suc base])"
  using assms
  by (simp add: applyRulesForTab_def Let_def createRulesForTab_isolated
      currentRuleId_cong [OF removeOldRules_frame(4)]
      buildCookieHeader_cong [OF removeOldRules_frame(3)]
      cookieRule_def setCookieRule_def)

lemma addNewRules_frame:
  "sessions (addNewRules h w rs) = sessions w"
  "tabSessions (addNewRules h w rs) = tabSessions w"
  "sessionCookies (addNewRules h w rs) = sessionCookies w"
  "ruleIdCounter (addNewRules h w rs) = ruleIdCounter w"
  "tabCache (addNewRules h w rs) = tabCache w"
  by (simp_all add: addNewRules_def updateSessionRules_def)

lemma addNewRules_rules:
  "sessionRules (addNewRules h w rs) =
     (if rs \<noteq> [] \<and> \<not> rejects h (sessionRules w) [] rs then sessionRules w @ rs else sessionRules w)"
  by (simp add: addNewRules_def updateSessionRules_def)

lemma applyRulesForTab_binding:
  assumes "s \<noteq> ''default''" and "url_hostname h url = Some d"
  shows "tabCache (applyRulesForTab h now w t s url) t
           = Some \<lparr>sessionId = s, ruleIds = [currentRuleId w, Suc (currentRuleId w)], domains = {d}\<rparr>"
    and "getTabInfo (applyRulesForTab h now w t s url) t
           = \<lparr>sessionId = s, ruleIds = [currentRuleId w, Suc (currentRuleId w)]\<rparr>"
    and "sessionCookies (applyRulesForTab h now w t s url) = sessionCookies w"
    and "ruleIdCounter (applyRulesForTab h now w t s url) = Some (currentRuleId w + 100)"
  by (simp_all add: applyRulesForTab_isolated [OF assms] Let_def setTabInfo_def getTabInfo_def
      addNewRules_frame removeOldRules_frame)

lemma applyRulesForTab_engine:
  assumes "s \<noteq> ''default''" and "url_hostname h url = Some d"
  shows "sessionRules (applyRulesForTab h now w t s url) =
           (let rules = [cookieRule (currentRuleId w) t (buildCookieHeader w now s d),
                         setCookieRule (currentRuleId w) t];
                before = sessionRules (removeOldRules h w t)
            in if rejects h before [] rules then before else before @ rules)"
  by (simp add: applyRulesForTab_isolated [OF assms] Let_def setTabInfo_def addNewRules_rules)

text \<open>
  Claim C3, as amended.  The add call is made for a session other than \<open>default\<close> and a URL
  that parses.  When the engine rejects it, the rejection is caught and logged and nothing
  is installed: the engine holds what it held after the removal of the tab's old rules.
  The binding of the tab, in the cache and in the persisted table, records the two
  identifiers that were allocated for the rejected rules all the same.
\<close>

theorem applyRulesForTab_rejected:
  assumes "s \<noteq> ''default''" and "url_hostname h url = Some d"
    and "addRejected h w now t s d"
  shows "sessionRules (applyRulesForTab h now w t s url) = sessionRules (removeOldRules h w t)
         \<and> tabCache (applyRulesForTab h now w t s url) t
             = Some \<lparr>sessionId = s, ruleIds = [currentRuleId w, currentRuleId w + 1], domains = {d}\<rparr>
         \<and> getTabInfo (applyRulesForTab h now w t s url) t
             = \<lparr>sessionId = s, ruleIds = [currentRuleId w, currentRuleId w + 1]\<rparr>"
  using assms(3) applyRulesForTab_binding(1,2) [OF assms(1,2), of now w t]
    applyRulesForTab_engine [OF assms(1,2), of now w t]
  by (simp add: addRejected_def newRules_def Let_def)

lemmas engine_eval = exampleHost_def world0_def cookieRule_def setCookieRule_def
  removeOldRules_def cachedTabInfo_def updateSessionRules_def currentRuleId_def Let_def

text \<open>
  The engine holds a rule of tab 7 under the identifier 1 and the counter stands at 1, so
  the two rules for tab 3 are rejected.  Tab 3 had no rule before and has none in the
  engine afterwards, yet its binding lists the identifiers 1 and 2.
\<close>

theorem applyRulesForTab_rejected_counterexample:
  "addRejected exampleHost worldClash 0 3 ''work'' ''mail.example.com''
   \<and> ruleIds (cachedTabInfo worldClash 3) = []
   \<and> map_option ruleIds
        (tabCache (applyRulesForTab exampleHost 0 worldClash 3 ''work'' ''https://mail.example.com/x'') 3)
       = Some [1, 2]
   \<and> map ruleId
        (sessionRules (applyRulesForTab exampleHost 0 worldClash 3 ''work'' ''https://mail.example.com/x''))
       = [1]
   \<and> rulesOfTab 3 (applyRulesForTab exampleHost 0 worldClash 3 ''work'' ''https://mail.example.com/x'')
       = []"
proof -
  have u: "url_hostname exampleHost ''https://mail.example.com/x'' = Some ''mail.example.com''"
    by (simp add: exampleHost_def)
  have n: "''work'' \<noteq> ''default''" by simp
  have c: "currentRuleId worldClash = 1" by (simp add: worldClash_def engine_eval)
  have r: "addRejected exampleHost worldClash 0 3 ''work'' ''mail.example.com''"
    by (simp add: addRejected_def newRules_def worldClash_def engine_eval)
  have o: "ruleIds (cachedTabInfo worldClash 3) = []"
    by (simp add: worldClash_def engine_eval)
  have e: "sessionRules (removeOldRules exampleHost worldClash 3) = [setCookieRule 0 7]"
    by (simp add: worldClash_def engine_eval)
  from applyRulesForTab_binding(1) [OF n u, of 0 worldClash 3] c
  have 1: "map_option ruleIds
        (tabCache (applyRulesForTab exampleHost 0 worldClash 3 ''work'' ''https://mail.example.com/x'') 3)
       = Some [1, 2]" by simp
  from applyRulesForTab_engine [OF n u, of 0 worldClash 3] r
  have 2: "sessionRules (applyRulesForTab exampleHost 0 worldClash 3 ''work'' ''https://mail.example.com/x'')
       = [setCookieRule 0 7]"
    by (simp add: addRejected_def newRules_def Let_def e)
  then have 3: "rulesOfTab 3 (applyRulesForTab exampleHost 0 worldClash 3 ''work'' ''https://mail.example.com/x'') = []"
    by (simp add: rulesOfTab_def setCookieRule_def)
  from 2 have 4: "map ruleId
        (sessionRules (applyRulesForTab exampleHost 0 worldClash 3 ''work'' ''https://mail.example.com/x''))
       = [1]" by (simp add: setCookieRule_def)
  from r o 1 3 4 show ?thesis by blast
qed

theorem applyRulesForTab_rejected_witness:
  "addRejected exampleHost worldClash 0 3 ''work'' ''mail.example.com''
   \<and> sessionRules (applyRulesForTab exampleHost 0 worldClash 3 ''work'' ''https://mail.example.com/x'')
       = [setCookieRule 0 7]
   \<and> getTabInfo (applyRulesForTab exampleHost 0 worldClash 3 ''work'' ''https://mail.example.com/x'') 3
       = \<lparr>sessionId = ''work'', ruleIds = [1, 2]\<rparr>"
proof -
  have u: "url_hostname exampleHost ''https://mail.example.com/x'' = Some ''mail.example.com''"
    by (simp add: exampleHost_def)
  have n: "''work'' \<noteq> ''default''" by simp
  have c: "currentRuleId worldClash = 1" by (simp add: worldClash_def engine_eval)
  have r: "addRejected exampleHost worldClash 0 3 ''work'' ''mail.example.com''"
    by (simp add: addRejected_def newRules_def worldClash_def engine_eval)
  have e: "sessionRules (removeOldRules exampleHost worldClash 3) = [setCookieRule 0 7]"
    by (simp add: worldClash_def engine_eval)
  from applyRulesForTab_rejected [OF n u r] c e r show ?thesis by simp
qed

lemma newRules_tabIds: "\<forall>r\<in>set (newRules w now t s d). tabIds r = [t]"
  by (simp add: newRules_def cookieRule_def setCookieRule_def)

lemma newRules_ids: "map ruleId (newRules w now t s d) = [currentRuleId w, currentRuleId w + 1]"
  by (simp add: newRules_def cookieRule_def setCookieRule_def)

lemma applyRulesForTab_accepted:
  assumes "s \<noteq> ''default''" and "url_hostname h url = Some d"
    and "installAccepted h w now t s d"
  shows "sessionRules (applyRulesForTab h now w t s url)
           = filter (\<lambda>r. ruleId r \<notin> set (ruleIds (cachedTabInfo w t))) (sessionRules w)
             @ newRules w now t s d"
proof -
  from assms(3) have a: "\<not> removalRejected h w t" "\<not> addRejected h w now t s d"
    by (auto simp: installAccepted_def split: if_splits)
  from a(1) have "sessionRules (removeOldRules h w t)
      = filter (\<lambda>r. ruleId r \<notin> set (ruleIds (cachedTabInfo w t))) (sessionRules w)"
    by (auto simp: removeOldRules_rules removalRejected_def split: if_splits)
  with a(2) applyRulesForTab_engine [OF assms(1,2), of now w t] show ?thesis
    by (simp add: addRejected_def newRules_def Let_def)
qed

lemma rulesOfTab_accepted:
  assumes "s \<noteq> ''default''" and "url_hostname h url = Some d"
    and "installAccepted h w now t s d"
    and "\<forall>r\<in>set (rulesOfTab t w). ruleId r \<in> set (ruleIds (cachedTabInfo w t))"
  shows "rulesOfTab t (applyRulesForTab h now w t s url) = newRules w now t s d"
proof -
  have "filter (\<lambda>r. t \<in> set (tabIds r))
          (filter (\<lambda>r. ruleId r \<notin> set (ruleIds (cachedTabInfo w t))) (sessionRules w)) = []"
    using assms(4) by (auto simp: rulesOfTab_def filter_empty_conv)
  moreover have "filter (\<lambda>r. t \<in> set (tabIds r)) (newRules w now t s d) = newRules w now t s d"
    using newRules_tabIds [of w now t s d] by (simp add: filter_id_conv)
  ultimately show ?thesis
    by (simp add: rulesOfTab_def applyRulesForTab_accepted [OF assms(1,2,3)])
qed

lemma cachedTabInfo_after:
  assumes "s \<noteq> ''default''" and "url_hostname h url = Some d"
  shows "cachedTabInfo (applyRulesForTab h now w t s url) t
           = \<lparr>sessionId = s, ruleIds = [currentRuleId w, Suc (currentRuleId w)], domains = {d}\<rparr>"
  by (simp add: cachedTabInfo_def applyRulesForTab_binding(1) [OF assms])

lemma newRules_again:
  assumes "s \<noteq> ''default''" and "url_hostname h url = Some d"
    and "buildCookieHeader w now' s d = buildCookieHeader w now s d"
  shows "newRules (applyRulesForTab h now w t s url) now' t s d
           = map (renumber 100) (newRules w now t s d)"
proof -
  have "currentRuleId (applyRulesForTab h now w t s url) = currentRuleId w + 100"
    by (simp add: currentRuleId_def applyRulesForTab_binding(4) [OF assms(1,2)])
  moreover have "buildCookieHeader (applyRulesForTab h now w t s url) now' s d
                   = buildCookieHeader w now s d"
    using buildCookieHeader_cong [OF applyRulesForTab_binding(3) [OF assms(1,2)]] assms(3)
    by simp
  ultimately show ?thesis
    by (simp add: newRules_def renumber_def cookieRule_def setCookieRule_def)
qed

lemmas obj_eval = obj_set_def isArrayIndex_def isDigit_def digitValue_def

lemma worldEpoch_store:
  "sessionCookies worldEpoch =
     Some [(''work'', [(''mail.example.com'',
        [(''sid|/'', \<lparr>name = ''sid'', cvalue = ''deleted'', domain = ''mail.example.com'',
                      path = ''/'', secure = False, httpOnly = False, sameSite = ''Lax'',
                      expirationDate = Some (Num 0)\<rparr>)])])]"
  by (simp add: worldEpoch_def captureSetCookie_def parseSetCookie_def epochHost_def exampleHost_def
      js_eval setSessionCookie_def world0_def obj_eval Let_def)

lemma worldMaxAge_store:
  "sessionCookies worldMaxAge =
     Some [(''work'', [(''mail.example.com'',
        [(''b|/'', \<lparr>name = ''b'', cvalue = ''x'', domain = ''mail.example.com'',
                      path = ''/'', secure = False, httpOnly = False, sameSite = ''Lax'',
                      expirationDate = Some (Num 50)\<rparr>)])])]"
  by (simp add: worldMaxAge_def captureSetCookie_def parseSetCookie_def exampleHost_def
      js_eval setSessionCookie_def world0_def obj_eval Let_def)

lemma keepsCookie_later:
  assumes "now \<le> now'"
    and "case expirationDate c of None \<Rightarrow> True | Some NaN \<Rightarrow> True
         | Some (Num e) \<Rightarrow> if now < e then now' < e else True"
  shows "keepsCookie now' c = keepsCookie now c"
  using assms by (auto simp: keepsCookie_def split: option.splits number.splits if_splits)

lemma buildCookieHeader_later:
  assumes "now \<le> now'" and "noExpiryBetween now now' (getSessionCookiesForDomain w s d)"
  shows "buildCookieHeader w now' s d = buildCookieHeader w now s d"
proof -
  have "filter (keepsCookie now') (getSessionCookiesForDomain w s d)
          = filter (keepsCookie now) (getSessionCookiesForDomain w s d)"
    using assms(2) keepsCookie_later [OF assms(1)]
    by (intro filter_cong) (auto simp: noExpiryBetween_def list_all_iff)
  then show ?thesis by (simp add: buildCookieHeader_def)
qed

text \<open>
  Claim C8, as amended.  For a session other than \<open>default\<close> and a URL that parses,
  \<open>createRulesForTab\<close> builds exactly two rules, both scoped to the tab, and after
  \<open>applyRulesForTab\<close> the binding of the tab (cache and persisted table) lists exactly their
  two identifiers.  When the engine accepts the updates, the rules under the identifiers
  of the tab's previous binding are removed and the two new rules are added.  A second
  install with the same tab, session and URL at a later time, no cookie of the store being
  changed and none of the matching records expiring between the two times, builds the same
  two rules under identifiers 100 higher, leaves their two identifiers in the binding and
  (the engine accepting) replaces the first two rules by them.
\<close>

theorem applyRulesForTab_two_rules:
  assumes "s \<noteq> ''default''" and "url_hostname h url = Some d"
  shows "fst (createRulesForTab h now w t s url) = newRules w now t s d
    \<and> length (newRules w now t s d) = 2
    \<and> (\<forall>r\<in>set (newRules w now t s d). tabIds r = [t])
    \<and> ruleIds (cachedTabInfo (applyRulesForTab h now w t s url) t)
        = map ruleId (newRules w now t s d)
    \<and> ruleIds (getTabInfo (applyRulesForTab h now w t s url) t)
        = map ruleId (newRules w now t s d)
    \<and> (installAccepted h w now t s d \<longrightarrow>
         sessionRules (applyRulesForTab h now w t s url)
           = filter (\<lambda>r. ruleId r \<notin> set (ruleIds (cachedTabInfo w t))) (sessionRules w)
             @ newRules w now t s d)
    \<and> (now \<le> now' \<and> noExpiryBetween now now' (getSessionCookiesForDomain w s d) \<longrightarrow>
         fst (createRulesForTab h now' (applyRulesForTab h now w t s url) t s url)
           = map (renumber 100) (newRules w now t s d)
         \<and> ruleIds (cachedTabInfo
               (applyRulesForTab h now' (applyRulesForTab h now w t s url) t s url) t)
             = map ruleId (map (renumber 100) (newRules w now t s d))
         \<and> (installAccepted h (applyRulesForTab h now w t s url) now' t s d \<longrightarrow>
              sessionRules (applyRulesForTab h now' (applyRulesForTab h now w t s url) t s url)
                = filter (\<lambda>r. ruleId r \<notin> set (map ruleId (newRules w now t s d)))
                    (sessionRules (applyRulesForTab h now w t s url))
                  @ map (renumber 100) (newRules w now t s d)))"
proof -
  let ?w' = "applyRulesForTab h now w t s url"
  let ?w'' = "applyRulesForTab h now' ?w' t s url"
  let ?rs = "newRules w now t s d"
  have 1: "fst (createRulesForTab h now w t s url) = ?rs"
    by (simp add: createRulesForTab_isolated [OF assms] newRules_def)
  have 2: "length ?rs = 2" by (simp add: newRules_def)
  note 3 = newRules_tabIds [of w now t s d]
  have 4: "ruleIds (cachedTabInfo ?w' t) = map ruleId ?rs"
    by (simp add: cachedTabInfo_after [OF assms] newRules_ids)
  have 5: "ruleIds (getTabInfo ?w' t) = map ruleId ?rs"
    by (simp add: applyRulesForTab_binding(2) [OF assms] newRules_ids)
  have 6: "sessionRules ?w'
           = filter (\<lambda>r. ruleId r \<notin> set (ruleIds (cachedTabInfo w t))) (sessionRules w) @ ?rs"
    if "installAccepted h w now t s d"
    using applyRulesForTab_accepted [OF assms that] .
  have 7: "fst (createRulesForTab h now' ?w' t s url) = map (renumber 100) ?rs
         \<and> ruleIds (cachedTabInfo ?w'' t) = map ruleId (map (renumber 100) ?rs)
         \<and> (installAccepted h ?w' now' t s d \<longrightarrow>
              sessionRules ?w'' = filter (\<lambda>r. ruleId r \<notin> set (map ruleId ?rs)) (sessionRules ?w')
                  @ map (renumber 100) ?rs)"
    if le: "now \<le> now'" and ne: "noExpiryBetween now now' (getSessionCookiesForDomain w s d)"
  proof -
    note again = newRules_again [OF assms buildCookieHeader_later [OF le ne], of t]
    have a: "fst (createRulesForTab h now' ?w' t s url) = map (renumber 100) ?rs"
      using again by (simp add: createRulesForTab_isolated [OF assms] newRules_def)
    have "ruleIds (cachedTabInfo ?w'' t) = map ruleId (newRules ?w' now' t s d)"
      by (simp add: cachedTabInfo_after [OF assms] newRules_ids)
    with again have b: "ruleIds (cachedTabInfo ?w'' t) = map ruleId (map (renumber 100) ?rs)"
      by simp
    have c: "sessionRules ?w'' = filter (\<lambda>r. ruleId r \<notin> set (map ruleId ?rs)) (sessionRules ?w')
                  @ map (renumber 100) ?rs"
      if "installAccepted h ?w' now' t s d"
      using applyRulesForTab_accepted [OF assms that] again 4 by simp
    from a b c show ?thesis by blast
  qed
  from 1 2 3 4 5 6 7 show ?thesis by blast
qed

lemma captureSetCookie_frame:
  "ruleIdCounter (captureSetCookie h now w s header url) = ruleIdCounter w"
  "tabCache (captureSetCookie h now w s header url) = tabCache w"
  "sessionRules (captureSetCookie h now w s header url) = sessionRules w"
  by (simp_all add: captureSetCookie_def setSessionCookie_def Let_def split: option.splits)

lemma worldMaxAge_header:
  "buildCookieHeader worldMaxAge 20 ''work'' ''mail.example.com'' = ''b=x''
   \<and> buildCookieHeader worldMaxAge 60 ''work'' ''mail.example.com'' = []"
  by (simp add: buildCookieHeader_def getSessionCookiesForDomain_def getSessionCookies_def
      worldMaxAge_store domainMatches_def startsWith_def keepsCookie_def cookiePair_def)

text \<open>
  A cookie set at second 10 with \<open>Max-Age=40\<close> expires at second 50.  With the store
  untouched, the install at second 20 sets the header \<open>Cookie: b=x\<close> and the install at
  second 60 sets none: the two rules do not have the same content.
\<close>

theorem applyRulesForTab_expiry_counterexample:
  "sessionCookies (applyRulesForTab exampleHost 20 worldMaxAge 3 ''work'' ''https://mail.example.com/x'')
     = sessionCookies worldMaxAge
   \<and> fst (createRulesForTab exampleHost 20 worldMaxAge 3 ''work'' ''https://mail.example.com/x'')
       = [cookieRule 1 3 ''b=x'', setCookieRule 1 3]
   \<and> fst (createRulesForTab exampleHost 60
          (applyRulesForTab exampleHost 20 worldMaxAge 3 ''work'' ''https://mail.example.com/x'')
          3 ''work'' ''https://mail.example.com/x'')
       = [cookieRule 101 3 [], setCookieRule 101 3]
   \<and> requestHeaders (cookieRule 1 3 ''b=x'') = [Remove ''Cookie'', SetHeader ''Cookie'' ''b=x'']
   \<and> requestHeaders (cookieRule 101 3 []) = [Remove ''Cookie'']"
proof -
  let ?url = "''https://mail.example.com/x''"
  let ?w' = "applyRulesForTab exampleHost 20 worldMaxAge 3 ''work'' ?url"
  have u: "url_hostname exampleHost ?url = Some ''mail.example.com''"
    by (simp add: exampleHost_def)
  have n: "''work'' \<noteq> ''default''" by simp
  have c: "currentRuleId worldMaxAge = 1"
    by (simp add: currentRuleId_def worldMaxAge_def captureSetCookie_frame world0_def)
  have 1: "sessionCookies ?w' = sessionCookies worldMaxAge"
    by (rule applyRulesForTab_binding(3) [OF n u])
  have 2: "fst (createRulesForTab exampleHost 20 worldMaxAge 3 ''work'' ?url)
       = [cookieRule 1 3 ''b=x'', setCookieRule 1 3]"
    by (simp add: createRulesForTab_isolated [OF n u] c worldMaxAge_header)
  have c': "currentRuleId ?w' = 101"
    unfolding currentRuleId_def [of "?w'"] applyRulesForTab_binding(4) [OF n u] c by simp
  have h': "buildCookieHeader ?w' 60 ''work'' ''mail.example.com'' = []"
    using buildCookieHeader_cong [OF 1] worldMaxAge_header by simp
  have 3: "fst (createRulesForTab exampleHost 60 ?w' 3 ''work'' ?url)
       = [cookieRule 101 3 [], setCookieRule 101 3]"
    by (simp add: createRulesForTab_isolated [OF n u] c' h')
  have 4: "requestHeaders (cookieRule 1 3 ''b=x'') = [Remove ''Cookie'', SetHeader ''Cookie'' ''b=x'']
     \<and> requestHeaders (cookieRule 101 3 []) = [Remove ''Cookie'']"
    by (simp add: cookieRule_def)
  from 1 2 3 4 show ?thesis by blast
qed

theorem applyRulesForTab_two_rules_witness:
  "installAccepted exampleHost worldBoundExpiring 20 3 ''work'' ''mail.example.com''
   \<and> noExpiryBetween 20 30
        (getSessionCookiesForDomain worldBoundExpiring ''work'' ''mail.example.com'')
   \<and> getSessionCookiesForDomain worldBoundExpiring ''work'' ''mail.example.com''
       = [(plainCookie ''a'' ''1'' (Some (Num 50)))\<lparr>domain := ''.example.com''\<rparr>]
   \<and> ruleIds (cachedTabInfo worldBoundExpiring 3) = [1, 2]
   \<and> ruleIds (cachedTabInfo
         (applyRulesForTab exampleHost 20 worldBoundExpiring 3 ''work'' ''https://mail.example.com/x'') 3)
       = [101, 102]
   \<and> sessionRules
        (applyRulesForTab exampleHost 20 worldBoundExpiring 3 ''work'' ''https://mail.example.com/x'')
       = [cookieRule 101 3 ''a=1'', setCookieRule 101 3]
   \<and> fst (createRulesForTab exampleHost 30
          (applyRulesForTab exampleHost 20 worldBoundExpiring 3 ''work'' ''https://mail.example.com/x'')
          3 ''work'' ''https://mail.example.com/x'')
       = [cookieRule 201 3 ''a=1'', setCookieRule 201 3]
   \<and> sessionRules
        (applyRulesForTab exampleHost 30
          (applyRulesForTab exampleHost 20 worldBoundExpiring 3 ''work'' ''https://mail.example.com/x'')
          3 ''work'' ''https://mail.example.com/x'')
       = [cookieRule 201 3 ''a=1'', setCookieRule 201 3]"
proof -
  let ?url = "''https://mail.example.com/x''"
  let ?w = "worldBoundExpiring"
  let ?w' = "applyRulesForTab exampleHost 20 ?w 3 ''work'' ?url"
  let ?w'' = "applyRulesForTab exampleHost 30 ?w' 3 ''work'' ?url"
  have u: "url_hostname exampleHost ?url = Some ''mail.example.com''"
    by (simp add: exampleHost_def)
  have n: "''work'' \<noteq> ''default''" by simp
  have q: "getSessionCookiesForDomain ?w ''work'' ''mail.example.com''
       = [(plainCookie ''a'' ''1'' (Some (Num 50)))\<lparr>domain := ''.example.com''\<rparr>]"
    by (simp add: worldBoundExpiring_def worldBound_def world_eval)
  have ne: "noExpiryBetween 20 30 (getSessionCookiesForDomain ?w ''work'' ''mail.example.com'')"
    by (simp add: q noExpiryBetween_def plainCookie_def)
  have hd: "buildCookieHeader ?w 20 ''work'' ''mail.example.com'' = ''a=1''"
    by (simp add: buildCookieHeader_def q keepsCookie_def cookiePair_def plainCookie_def)
  have c: "currentRuleId ?w = 101"
    by (simp add: worldBoundExpiring_def worldBound_def world0_def currentRuleId_def)
  have nr: "newRules ?w 20 3 ''work'' ''mail.example.com''
       = [cookieRule 101 3 ''a=1'', setCookieRule 101 3]"
    by (simp add: newRules_def hd c)
  have o: "ruleIds (cachedTabInfo ?w 3) = [1, 2]"
    by (simp add: worldBoundExpiring_def worldBound_def world0_def cachedTabInfo_def)
  have sr: "sessionRules ?w = [cookieRule 1 3 ''a=1'', setCookieRule 1 3]"
    by (simp add: worldBoundExpiring_def worldBound_def world0_def)
  have rr: "\<not> removalRejected exampleHost ?w 3"
    by (simp add: removalRejected_def o sr exampleHost_def cookieRule_def setCookieRule_def)
  have ro: "sessionRules (removeOldRules exampleHost ?w 3) = []"
    using rr by (simp add: removeOldRules_rules removalRejected_def o sr cookieRule_def setCookieRule_def)
  have ar: "\<not> addRejected exampleHost ?w 20 3 ''work'' ''mail.example.com''"
    unfolding addRejected_def nr ro
    by (simp add: exampleHost_def cookieRule_def setCookieRule_def)
  have acc: "installAccepted exampleHost ?w 20 3 ''work'' ''mail.example.com''"
    using rr ar by (simp add: installAccepted_def)
  note t = applyRulesForTab_two_rules [OF n u, of 20 ?w 3 30]
  from t nr have 4: "ruleIds (cachedTabInfo ?w' 3) = [101, 102]"
    by (simp add: cookieRule_def setCookieRule_def)
  from t acc have "sessionRules ?w'
           = filter (\<lambda>r. ruleId r \<notin> set (ruleIds (cachedTabInfo ?w 3))) (sessionRules ?w)
             @ newRules ?w 20 3 ''work'' ''mail.example.com''"
    by blast
  then have 5: "sessionRules ?w' = [cookieRule 101 3 ''a=1'', setCookieRule 101 3]"
    by (simp add: o sr nr) (simp add: cookieRule_def setCookieRule_def)
  have le: "(20::real) \<le> 30" by simp
  from t le ne have s2: "fst (createRulesForTab exampleHost 30 ?w' 3 ''work'' ?url)
           = map (renumber 100) (newRules ?w 20 3 ''work'' ''mail.example.com'')
      \<and> (installAccepted exampleHost ?w' 30 3 ''work'' ''mail.example.com'' \<longrightarrow>
              sessionRules ?w''
                = filter (\<lambda>r. ruleId r \<notin> set (map ruleId (newRules ?w 20 3 ''work'' ''mail.example.com'')))
                    (sessionRules ?w')
                  @ map (renumber 100) (newRules ?w 20 3 ''work'' ''mail.example.com''))"
    by blast
  have rn: "map (renumber 100) (newRules ?w 20 3 ''work'' ''mail.example.com'')
              = [cookieRule 201 3 ''a=1'', setCookieRule 201 3]"
    by (simp add: nr renumber_def cookieRule_def setCookieRule_def)
  from s2 rn have 6: "fst (createRulesForTab exampleHost 30 ?w' 3 ''work'' ?url)
       = [cookieRule 201 3 ''a=1'', setCookieRule 201 3]" by simp
  have nr': "newRules ?w' 30 3 ''work'' ''mail.example.com''
       = [cookieRule 201 3 ''a=1'', setCookieRule 201 3]"
    using 6 by (simp add: createRulesForTab_isolated [OF n u] newRules_def)
  have o': "ruleIds (cachedTabInfo ?w' 3) \<noteq> []" using 4 by simp
  have rr': "\<not> removalRejected exampleHost ?w' 3"
    unfolding removalRejected_def 4 5
    by (simp add: exampleHost_def cookieRule_def setCookieRule_def)
  have ro': "sessionRules (removeOldRules exampleHost ?w' 3) = []"
    using rr' unfolding removeOldRules_rules removalRejected_def 4 5
    by (simp add: cookieRule_def setCookieRule_def split: if_splits)
  have ar': "\<not> addRejected exampleHost ?w' 30 3 ''work'' ''mail.example.com''"
    unfolding addRejected_def nr' ro'
    by (simp add: exampleHost_def cookieRule_def setCookieRule_def)
  have acc': "installAccepted exampleHost ?w' 30 3 ''work'' ''mail.example.com''"
    using rr' ar' by (simp add: installAccepted_def)
  from s2 acc' have "sessionRules ?w''
       = filter (\<lambda>r. ruleId r \<notin> set (map ruleId (newRules ?w 20 3 ''work'' ''mail.example.com'')))
           (sessionRules ?w')
         @ map (renumber 100) (newRules ?w 20 3 ''work'' ''mail.example.com'')"
    by blast
  then have 7: "sessionRules ?w'' = [cookieRule 201 3 ''a=1'', setCookieRule 201 3]"
    unfolding rn 5 by (simp add: nr cookieRule_def setCookieRule_def)
  from acc ne q o 4 5 6 7 show ?thesis by blast
qed

text \<open>
  What the rule engine holds for a tab is not bounded by the binding.  At start-up the
  cache is rebuilt with no rule identifiers while the engine keeps its rules, so the next
  install removes nothing: the tab then has four rules in the engine and two identifiers
  in its binding.
\<close>

lemma startup_install_keeps_stale_rules:
  "ruleIds (cachedTabInfo (startupTab worldBound 3) 3) = []
   \<and> map ruleId (rulesOfTab 3
         (applyRulesForTab exampleHost 0 (startupTab worldBound 3) 3 ''work''
            ''https://mail.example.com/x''))
       = [1, 2, 101, 102]
   \<and> ruleIds (cachedTabInfo
         (applyRulesForTab exampleHost 0 (startupTab worldBound 3) 3 ''work''
            ''https://mail.example.com/x'') 3)
       = [101, 102]"
proof -
  let ?url = "''https://mail.example.com/x''"
  let ?w = "startupTab worldBound 3"
  have u: "url_hostname exampleHost ?url = Some ''mail.example.com''"
    by (simp add: exampleHost_def)
  have n: "''work'' \<noteq> ''default''" by simp
  have o: "ruleIds (cachedTabInfo ?w 3) = []"
    by (simp add: startupTab_def cachedTabInfo_def)
  have c: "currentRuleId ?w = 101"
    by (simp add: startupTab_def worldBound_def world0_def currentRuleId_def)
  have sr: "sessionRules ?w = [cookieRule 1 3 ''a=1'', setCookieRule 1 3]"
    by (simp add: startupTab_def worldBound_def world0_def)
  have ro: "sessionRules (removeOldRules exampleHost ?w 3) = [cookieRule 1 3 ''a=1'', setCookieRule 1 3]"
    by (simp add: removeOldRules_rules o sr)
  have "sessionRules (applyRulesForTab exampleHost 0 ?w 3 ''work'' ?url)
          = [cookieRule 1 3 ''a=1'', setCookieRule 1 3,
             cookieRule 101 3 (buildCookieHeader ?w 0 ''work'' ''mail.example.com''),
             setCookieRule 101 3]"
    unfolding applyRulesForTab_engine [OF n u] ro c Let_def
    by (auto simp: exampleHost_def cookieRule_def setCookieRule_def)
  then have 1: "map ruleId (rulesOfTab 3 (applyRulesForTab exampleHost 0 ?w 3 ''work'' ?url))
       = [1, 2, 101, 102]"
    by (simp add: rulesOfTab_def cookieRule_def setCookieRule_def)
  have 2: "ruleIds (cachedTabInfo (applyRulesForTab exampleHost 0 ?w 3 ''work'' ?url) 3) = [101, 102]"
    by (simp add: cachedTabInfo_after [OF n u] c)
  from o 1 2 show ?thesis by blast
qed

subsection \<open>Deleting a session\<close>

lemma deleteSession_frame:
  "tabCache (snd (deleteSession w s)) = tabCache w"
  "sessionRules (snd (deleteSession w s)) = sessionRules w"
  "ruleIdCounter (snd (deleteSession w s)) = ruleIdCounter w"
  by (simp_all add: deleteSession_def Let_def split: option.splits)

lemma handleDeleteSession_snd:
  "snd (handleDeleteSession w s)
     = (snd (deleteSession w s))\<lparr>tabCache := (\<lambda>t. map_option (reassignEntry s) (tabCache w t))\<rparr>"
  by (simp add: handleDeleteSession_def split_beta deleteSession_frame)

lemma handleDeleteSession_rules:
  "sessionRules (snd (handleDeleteSession w s)) = sessionRules w"
  by (simp add: handleDeleteSession_snd deleteSession_frame)

lemma handleDeleteSession_ruleIds:
  "map_option ruleIds (tabCache (snd (handleDeleteSession w s)) t) = map_option ruleIds (tabCache w t)"
  by (cases "tabCache w t") (simp_all add: handleDeleteSession_snd reassignEntry_def)

lemma map_of_obj_delete: "map_of (obj_delete k ob) k = None"
  by (induction ob) (auto simp: obj_delete_def)

lemma handleDeleteSession_cookies:
  "s \<noteq> ''default'' \<Longrightarrow> getSessionCookies (snd (handleDeleteSession w s)) s = []"
  by (simp add: handleDeleteSession_def deleteSession_def Let_def getSessionCookies_def
        map_of_obj_delete split: option.splits)

lemma handleDeleteSession_binding:
  assumes "s \<noteq> ''default''" and "handleGetTabSession w t = s"
  shows "handleGetTabSession (snd (handleDeleteSession w s)) t = ''default''"
  using assms
  by (auto simp: handleGetTabSession_def handleDeleteSession_def deleteSession_def Let_def
        getTabSession_def getTabInfo_def reassignEntry_def reassignTab_def
        split: option.splits if_splits)

text \<open>
  Claim C4 fails on the code.  Deleting the session \<open>work\<close> while tab 3 is bound to it
  with its two rules installed reassigns the tab to \<open>default\<close> and purges the cookies of
  \<open>work\<close>, but the handler never calls \<open>applyRulesForTab\<close>: the two rules stay in the
  engine and their identifiers stay in the binding.  (\<open>handleDeleteSession_rules\<close> above:
  the handler leaves the engine as it is, whatever the state.)
\<close>

theorem handleDeleteSession_keeps_rules:
  "fst (handleDeleteSession worldBound ''work'')
   \<and> handleGetTabSession worldBound 3 = ''work''
   \<and> handleGetTabSession (snd (handleDeleteSession worldBound ''work'')) 3 = ''default''
   \<and> getSessionCookies (snd (handleDeleteSession worldBound ''work'')) ''work'' = []
   \<and> map_option ruleIds (tabCache (snd (handleDeleteSession worldBound ''work'')) 3) = Some [1, 2]
   \<and> ruleIds (getTabInfo (snd (handleDeleteSession worldBound ''work'')) 3) = [1, 2]
   \<and> rulesOfTab 3 (snd (handleDeleteSession worldBound ''work''))
       = [cookieRule 1 3 ''a=1'', setCookieRule 1 3]"
  by (simp add: handleDeleteSession_def deleteSession_def Let_def worldBound_def world0_def
      handleGetTabSession_def getTabSession_def getTabInfo_def reassignEntry_def reassignTab_def
      getSessionCookies_def obj_delete_def rulesOfTab_def cookieRule_def setCookieRule_def
      getSessions_def)

subsection \<open>A cookie that its server deleted\<close>

text \<open>
  Claim C7 fails on the code.  A server deletes a cookie by setting it again with an
  \<open>Expires\<close> at the epoch.  \<open>parseSetCookie\<close> stores the \<open>expirationDate\<close> 0, and the
  filter of \<open>buildCookieHeader\<close>, \<open>!c.expirationDate || c.expirationDate > now\<close>, takes 0
  for no date at all: the record, expired for as long as the epoch is past, is serialised
  into every header, so the header holds a pair of a record that is not alive.
\<close>

theorem buildCookieHeader_epoch_kept:
  "getSessionCookiesForDomain worldEpoch ''work'' ''mail.example.com''
     = [\<lparr>name = ''sid'', cvalue = ''deleted'', domain = ''mail.example.com'',
         path = ''/'', secure = False, httpOnly = False, sameSite = ''Lax'',
         expirationDate = Some (Num 0)\<rparr>]
   \<and> expirationInPast 1000
        \<lparr>name = ''sid'', cvalue = ''deleted'', domain = ''mail.example.com'',
         path = ''/'', secure = False, httpOnly = False, sameSite = ''Lax'',
         expirationDate = Some (Num 0)\<rparr>
   \<and> buildCookieHeader worldEpoch 1000 ''work'' ''mail.example.com'' = ''sid=deleted''
   \<and> parseCookiePairs (buildCookieHeader worldEpoch 1000 ''work'' ''mail.example.com'')
       = [(''sid'', ''deleted'')]"
proof -
  have q: "getSessionCookiesForDomain worldEpoch ''work'' ''mail.example.com''
     = [\<lparr>name = ''sid'', cvalue = ''deleted'', domain = ''mail.example.com'',
         path = ''/'', secure = False, httpOnly = False, sameSite = ''Lax'',
         expirationDate = Some (Num 0)\<rparr>]"
    by (simp add: getSessionCookiesForDomain_def getSessionCookies_def worldEpoch_store
        domainMatches_def startsWith_def)
  then have b: "buildCookieHeader worldEpoch 1000 ''work'' ''mail.example.com'' = ''sid=deleted''"
    by (simp add: buildCookieHeader_def keepsCookie_def cookiePair_def)
  have p: "parseCookiePairs ''sid=deleted'' = [(''sid'', ''deleted'')]"
    by (simp add: parseCookiePairs_def splitFirstEq_def)
  from q b p show ?thesis by (simp add: expirationInPast_def)
qed

end
